theory Spec2Isabelle
  imports Main "HOL-Library.Word"
begin

unbundle bit_operations_syntax

section \<open>Sub-document operation builders\<close>

text \<open>
  The wire format of a sub-document operation belongs to the networking engine. Its opcodes
  are an enumeration; its path flags are a bit set whose width and bit values are declared
  in the engine, so the four flag constants the builders use are passed as a
  record and the width is left open.
\<close>

datatype SubDocOpType =
    SubDocOpGet
  | SubDocOpExists
  | SubDocOpGetCount
  | SubDocOpGetDoc
  | SubDocOpDictAdd
  | SubDocOpCounter

record (overloaded) ('w::len) SubdocFlags =
  SubdocFlagNone :: "'w word"
  SubdocFlagCreatePath :: "'w word"
  SubdocFlagXattr :: "'w word"
  SubdocFlagUseMacros :: "'w word"

text \<open>
  A Go \<open>interface{}\<close> value as the builders see it: nil, a \<open>MutationMacro\<close> (a string
  type), an \<open>int64\<close>, or a value of any other dynamic type.
\<close>

datatype 'a iface =
    IfaceNil
  | IfaceMutationMacro string
  | IfaceInt64 "64 word"
  | IfaceOther 'a

fun isMutationMacro :: "'a iface \<Rightarrow> bool" where
  "isMutationMacro (IfaceMutationMacro m) = True"
| "isMutationMacro v = False"

record (overloaded) ('w::len, 'a) subDocOp =
  Op :: SubDocOpType
  Flags :: "'w word"
  Path :: string
  Value :: "'a iface"
  MultiValue :: bool

record (overloaded) ('w::len, 'a) MutateInOp =
  op :: "('w, 'a) subDocOp"

record MutateInSpecInsertOptions =
  CreatePath :: bool
  IsXattr :: bool

text \<open>
  \<open>MutateInSpec.Insert\<close>. A nil options pointer stands for the zero options. When the value
  is a macro the source also writes \<open>IsXattr = true\<close> into the caller's options; the local
  copy \<open>opts2\<close> carries that write to the tests below it.
\<close>

definition Insert ::
  "'w SubdocFlags \<Rightarrow> string \<Rightarrow> 'a iface \<Rightarrow> MutateInSpecInsertOptions option
     \<Rightarrow> ('w::len, 'a) MutateInOp" where
  "Insert K path val opts =
     (let opts1 = (case opts of None \<Rightarrow> \<lparr>CreatePath = False, IsXattr = False\<rparr> | Some o1 \<Rightarrow> o1);
          flags0 = (0 :: 'w word);
          ok = isMutationMacro val;
          flags1 = (if ok then flags0 OR SubdocFlagUseMacros K else flags0);
          opts2 = (if ok then opts1\<lparr>IsXattr := True\<rparr> else opts1);
          flags2 = (if CreatePath opts2 then flags1 OR SubdocFlagCreatePath K else flags1);
          flags3 = (if IsXattr opts2 then flags2 OR SubdocFlagXattr K else flags2)
      in \<lparr>op = \<lparr>Op = SubDocOpDictAdd, Flags = flags3, Path = path, Value = val,
                  MultiValue = False\<rparr>\<rparr>)"

record MutateInSpecCounterOptions =
  CounterCreatePath :: bool
  CounterIsXattr :: bool

definition Increment ::
  "'w SubdocFlags \<Rightarrow> string \<Rightarrow> 64 word \<Rightarrow> MutateInSpecCounterOptions option
     \<Rightarrow> ('w::len, 'a) MutateInOp" where
  "Increment K path delta opts =
     (let opts1 = (case opts of None \<Rightarrow> \<lparr>CounterCreatePath = False, CounterIsXattr = False\<rparr>
                               | Some o1 \<Rightarrow> o1);
          flags0 = (0 :: 'w word);
          flags1 = (if CounterCreatePath opts1 then flags0 OR SubdocFlagCreatePath K else flags0);
          flags2 = (if CounterIsXattr opts1 then flags1 OR SubdocFlagXattr K else flags1)
      in \<lparr>op = \<lparr>Op = SubDocOpCounter, Flags = flags2, Path = path, Value = IfaceInt64 delta,
                  MultiValue = False\<rparr>\<rparr>)"

definition Decrement ::
  "'w SubdocFlags \<Rightarrow> string \<Rightarrow> 64 word \<Rightarrow> MutateInSpecCounterOptions option
     \<Rightarrow> ('w::len, 'a) MutateInOp" where
  "Decrement K path delta opts =
     (let opts1 = (case opts of None \<Rightarrow> \<lparr>CounterCreatePath = False, CounterIsXattr = False\<rparr>
                               | Some o1 \<Rightarrow> o1);
          flags0 = (0 :: 'w word);
          flags1 = (if CounterCreatePath opts1 then flags0 OR SubdocFlagCreatePath K else flags0);
          flags2 = (if CounterIsXattr opts1 then flags1 OR SubdocFlagXattr K else flags1)
      in \<lparr>op = \<lparr>Op = SubDocOpCounter, Flags = flags2, Path = path, Value = IfaceInt64 (- delta),
                  MultiValue = False\<rparr>\<rparr>)"

text \<open>A flag set contains a flag when all bits of the flag are set in it.\<close>

definition hasFlag :: "'w::len word \<Rightarrow> 'w word \<Rightarrow> bool" where
  "hasFlag flags f = (flags AND f = f)"

text \<open>The options a builder works with: the zero options for a nil pointer.\<close>

definition insertOptsOrZero :: "MutateInSpecInsertOptions option \<Rightarrow> MutateInSpecInsertOptions" where
  "insertOptsOrZero opts = (case opts of None \<Rightarrow> \<lparr>CreatePath = False, IsXattr = False\<rparr> | Some o1 \<Rightarrow> o1)"

text \<open>
  The three flags the builders combine are separate, non-empty bit patterns (in the engine
  they are single bits).
\<close>

definition flagsSeparate :: "'w::len SubdocFlags \<Rightarrow> bool" where
  "flagsSeparate K =
     (SubdocFlagCreatePath K \<noteq> 0 \<and> SubdocFlagXattr K \<noteq> 0 \<and> SubdocFlagUseMacros K \<noteq> 0 \<and>
      SubdocFlagCreatePath K AND SubdocFlagXattr K = 0 \<and>
      SubdocFlagCreatePath K AND SubdocFlagUseMacros K = 0 \<and>
      SubdocFlagXattr K AND SubdocFlagUseMacros K = 0)"

section \<open>Strings and formatting\<close>

text \<open>
  Go strings are byte sequences; \<open>string\<close> is a list of bytes. The three functions of
  package \<open>strings\<close> the code calls are written out. \<open>TrimLeft\<close> takes a cutset: it drops
  leading characters for as long as they occur in the cutset (for the ASCII cutsets used
  here, byte by byte). \<open>TrimPrefix\<close> drops one leading copy of the prefix, if there is one.
\<close>

definition HasPrefix :: "string \<Rightarrow> string \<Rightarrow> bool" where
  "HasPrefix s pre = (take (length pre) s = pre)"

definition TrimLeft :: "string \<Rightarrow> string \<Rightarrow> string" where
  "TrimLeft s cutset = dropWhile (\<lambda>c. c \<in> set cutset) s"

definition TrimPrefix :: "string \<Rightarrow> string \<Rightarrow> string" where
  "TrimPrefix s pre = (if HasPrefix s pre then drop (length pre) s else s)"

text \<open>Decimal rendering, as \<open>strconv.FormatUint(n, 10)\<close> and \<open>fmt.Sprintf("%d", n)\<close> give it.\<close>

definition digitChar :: "nat \<Rightarrow> char" where
  "digitChar d = ''0123456789'' ! d"

function FormatUint :: "nat \<Rightarrow> string" where
  "FormatUint n = (if n < 10 then [digitChar n] else FormatUint (n div 10) @ [digitChar (n mod 10)])"
  by pat_completeness auto
termination
  by (relation "measure (\<lambda>n. n)") auto

declare FormatUint.simps [simp del]

definition SprintfD :: "int \<Rightarrow> string" where
  "SprintfD i = (if i < 0 then CHR ''-'' # FormatUint (nat (- i)) else FormatUint (nat i))"

section \<open>Design document names\<close>

text \<open>
  \<open>DesignDocumentNamespace\<close> is a boolean: \<open>True\<close> is the production namespace, \<open>False\<close>
  the development namespace.
\<close>

type_synonym DesignDocumentNamespace = bool

abbreviation (input) ProductionDesignDocumentNamespace :: DesignDocumentNamespace where
  "ProductionDesignDocumentNamespace \<equiv> True"

abbreviation (input) DevelopmentDesignDocumentNamespace :: DesignDocumentNamespace where
  "DevelopmentDesignDocumentNamespace \<equiv> False"

definition ddocName :: "string \<Rightarrow> DesignDocumentNamespace \<Rightarrow> string" where
  "ddocName name isProd =
     (if isProd then
        (if HasPrefix name ''dev_'' then TrimLeft name ''dev_'' else name)
      else
        (if \<not> HasPrefix name ''dev_'' then ''dev_'' @ name else name))"

section \<open>Errors, contexts and the HTTP engine\<close>

text \<open>
  A \<open>time.Duration\<close> is a signed 64-bit count of nanoseconds. An instant is an integer
  count of nanoseconds. A context is the background context, a context of the caller (of
  which only its deadline, if any, matters here), or a context with a deadline on top of
  another; \<open>context.WithTimeout\<close> sets the deadline from the current time.
\<close>

type_synonym Duration = "64 word"

definition Millisecond :: Duration where
  "Millisecond = 1000000"

datatype Context =
    Background
  | UserContext "int option"
  | WithDeadline Context int

fun Deadline :: "Context \<Rightarrow> int option" where
  "Deadline Background = None"
| "Deadline (UserContext d) = d"
| "Deadline (WithDeadline parent d) =
     (case Deadline parent of None \<Rightarrow> Some d | Some pd \<Rightarrow> Some (min pd d))"

definition WithTimeout :: "int \<Rightarrow> Context \<Rightarrow> Duration \<Rightarrow> Context" where
  "WithTimeout now parent timeout = WithDeadline parent (now + sint timeout)"

definition contextFromMaybeTimeout :: "int \<Rightarrow> Context option \<Rightarrow> Duration \<Rightarrow> Duration \<Rightarrow> Context" where
  "contextFromMaybeTimeout now ctx timeout globalTimeout =
     (let timeout1 = (if timeout = 0 then globalTimeout else timeout)
      in case ctx of
           None \<Rightarrow> WithTimeout now Background timeout1
         | Some c \<Rightarrow> WithTimeout now c timeout1)"

text \<open>
  Errors made outside this package (by the engine, by \<open>context\<close>, \<open>io\<close> or \<open>json\<close>) are
  opaque, except that \<open>context.DeadlineExceeded\<close> is recognised. The package's own errors
  are the typed ones; \<open>passedOn\<close> is an outside error returned unchanged, \<open>errorsWrap\<close>
  an error wrapped with a message. Of a
  \<open>timeoutError\<close> the operation id and the operation name are kept (its other fields are
  the engine's retry counters and the elapsed time).
\<close>

datatype foreign_error = DeadlineExceeded | ForeignError string

datatype error =
    invalidArgumentsError string
  | timeoutError string string
  | bucketManagerError string int
  | userManagerError int string
  | viewIndexError int string bool
  | queryIndexError int string bool
  | errorsNew string
  | errorsWrap error string
  | passedOn foreign_error
  | runtimePanic string

text \<open>
  Modelled from the spec: \<open>retryStrategyWrapper\<close> and \<open>newRetryStrategyWrapper\<close> are
  declared elsewhere in the package; the wrapper made for a strategy is "a wrapper of
  that supplied strategy", so it is modelled as holding the (possibly nil) strategy it
  was made from.
\<close>

datatype 'rs retryStrategyWrapper = retryStrategyWrapper (wrapped: "'rs option")

definition newRetryStrategyWrapper :: "'rs option \<Rightarrow> 'rs retryStrategyWrapper" where
  "newRetryStrategyWrapper strategy = retryStrategyWrapper strategy"

datatype ServiceType = MgmtService | CapiService

record 'rs HttpRequest =
  reqService :: ServiceType
  reqPath :: string
  reqMethod :: string
  reqBody :: string
  reqContentType :: string
  reqContext :: Context
  reqIsIdempotent :: bool
  reqRetryStrategy :: "'rs retryStrategyWrapper"
  reqUniqueId :: string

text \<open>
  Of a response the status code matters and what reading its body to the end gives: the
  bytes, or a read error.
\<close>

record HttpResponse =
  StatusCode :: int
  RespBody :: "foreign_error + string"

type_synonym 'rs httpProvider = "'rs HttpRequest \<Rightarrow> foreign_error + HttpResponse"

text \<open>What an operation reads from its surroundings: the clock and a fresh UUID.\<close>

record World =
  timeNow :: int
  newUUID :: string

text \<open>
  \<open>url.Values\<close> maps a key to a list of values. \<open>Add\<close> appends to the key's list, \<open>Set\<close>
  replaces it, \<open>Del\<close> removes the key. \<open>Encode\<close> is the library's and is a parameter where
  it is used.
\<close>

type_synonym Values = "string \<rightharpoonup> string list"

definition Values_Add :: "Values \<Rightarrow> string \<Rightarrow> string \<Rightarrow> Values" where
  "Values_Add m k v = m(k \<mapsto> (case m k of None \<Rightarrow> [] | Some vs \<Rightarrow> vs) @ [v])"

definition Values_Set :: "Values \<Rightarrow> string \<Rightarrow> string \<Rightarrow> Values" where
  "Values_Set m k v = m(k \<mapsto> [v])"

definition Values_Del :: "Values \<Rightarrow> string \<Rightarrow> Values" where
  "Values_Del m k = m(k := None)"

section \<open>Bucket management\<close>

record 'rs BucketManager =
  httpClient :: "'rs httpProvider"
  globalTimeout :: Duration
  defaultRetryStrategy :: "'rs retryStrategyWrapper"

type_synonym BucketType = string
type_synonym ConflictResolutionType = string
type_synonym EvictionPolicyType = string
type_synonym CompressionMode = string

definition CouchbaseBucketType :: BucketType where
  "CouchbaseBucketType = ''membase''"

definition MemcachedBucketType :: BucketType where
  "MemcachedBucketType = ''memcached''"

definition EphemeralBucketType :: BucketType where
  "EphemeralBucketType = ''ephemeral''"

record bucketDataIn =
  inName :: string
  inControllersFlush :: string
  inReplicaIndex :: bool
  inQuotaRam :: int
  inQuotaRawRam :: int
  inReplicaNumber :: int
  inBucketType :: string
  inConflictResolutionType :: string
  inEvictionPolicy :: string
  inMaxTTL :: int
  inCompressionMode :: string

record BucketSettings =
  Name :: string
  FlushEnabled :: bool
  ReplicaIndexDisabled :: bool
  RAMQuotaMB :: int
  NumReplicas :: int
  BucketType :: BucketType
  EvictionPolicy :: EvictionPolicyType
  MaxTTL :: int
  CompressionMode :: CompressionMode

record CreateBucketSettings = BucketSettings +
  ConflictResolutionType :: ConflictResolutionType

text \<open>
  The quota is divided only when positive, where Go's truncating division and \<open>div\<close>
  agree. An unrecognised bucket type is logged and the field keeps its zero value.
\<close>

definition bucketDataInToSettings :: "bucketDataIn \<Rightarrow> string \<times> BucketSettings" where
  "bucketDataInToSettings bucketData =
     (let settings = \<lparr>Name = inName bucketData,
                       FlushEnabled = (inControllersFlush bucketData \<noteq> ''''),
                       ReplicaIndexDisabled = (\<not> inReplicaIndex bucketData),
                       RAMQuotaMB = inQuotaRawRam bucketData,
                       NumReplicas = inReplicaNumber bucketData,
                       BucketType = '''',
                       EvictionPolicy = inEvictionPolicy bucketData,
                       MaxTTL = inMaxTTL bucketData,
                       CompressionMode = inCompressionMode bucketData\<rparr>;
          settings1 = (if RAMQuotaMB settings > 0
                       then settings\<lparr>RAMQuotaMB := RAMQuotaMB settings div 1024 div 1024\<rparr>
                       else settings);
          settings2 = (if inBucketType bucketData = ''membase''
                         then settings1\<lparr>BucketType := CouchbaseBucketType\<rparr>
                       else if inBucketType bucketData = ''memcached''
                         then settings1\<lparr>BucketType := MemcachedBucketType\<rparr>
                       else if inBucketType bucketData = ''ephemeral''
                         then settings1\<lparr>BucketType := EphemeralBucketType\<rparr>
                       else settings1)
      in (inName bucketData, settings2))"

text \<open>
  The options of the six operations have the same three fields; a nil options pointer
  stands for the zero options.
\<close>

record 'rs MgmtOptions =
  optTimeout :: Duration
  optContext :: "Context option"
  optRetryStrategy :: "'rs option"

type_synonym 'rs GetBucketOptions = "'rs MgmtOptions"
type_synonym 'rs GetAllBucketsOptions = "'rs MgmtOptions"
type_synonym 'rs CreateBucketOptions = "'rs MgmtOptions"
type_synonym 'rs UpdateBucketOptions = "'rs MgmtOptions"
type_synonym 'rs DropBucketOptions = "'rs MgmtOptions"
type_synonym 'rs FlushBucketOptions = "'rs MgmtOptions"

definition optsOrZero :: "'rs MgmtOptions option \<Rightarrow> 'rs MgmtOptions" where
  "optsOrZero opts =
     (case opts of None \<Rightarrow> \<lparr>optTimeout = 0, optContext = None, optRetryStrategy = None\<rparr>
                 | Some o1 \<Rightarrow> o1)"

text \<open>
  Every operation returns the requests it handed to the engine, in order, next to its
  result. The tracer's spans and the closing of the response body (whose failure is only
  logged) leave no trace in either. A JSON decoder is a parameter: it gives a decoding
  error, or the decoded value, which for a pointer target may be nil.
\<close>

definition get ::
  "(string \<Rightarrow> foreign_error + bucketDataIn option) \<Rightarrow> World \<Rightarrow> 'rs BucketManager \<Rightarrow> Context
     \<Rightarrow> string \<Rightarrow> 'rs retryStrategyWrapper \<Rightarrow> 'rs HttpRequest list \<times> (error + BucketSettings)" where
  "get jsonDecode w bm ctx bucketName strategy =
     (let req = \<lparr>reqService = MgmtService,
                  reqPath = ''/pools/default/buckets/'' @ bucketName,
                  reqMethod = ''GET'',
                  reqBody = '''',
                  reqContentType = '''',
                  reqContext = ctx,
                  reqIsIdempotent = True,
                  reqRetryStrategy = strategy,
                  reqUniqueId = newUUID w\<rparr>
      in ([req],
          case httpClient bm req of
            Inl err \<Rightarrow>
              if err = DeadlineExceeded then Inl (timeoutError (reqUniqueId req) ''mgmt'')
              else Inl (passedOn err)
          | Inr resp \<Rightarrow>
              if StatusCode resp \<noteq> 200 then
                (case RespBody resp of
                   Inl err \<Rightarrow> Inl (passedOn err)
                 | Inr data \<Rightarrow> Inl (bucketManagerError data (StatusCode resp)))
              else
                (case RespBody resp of
                   Inl err \<Rightarrow> Inl (passedOn err)
                 | Inr data \<Rightarrow>
                     (case jsonDecode data of
                        Inl err \<Rightarrow> Inl (passedOn err)
                      | Inr None \<Rightarrow> Inl (runtimePanic ''nil pointer dereference'')
                      | Inr (Some bucketData) \<Rightarrow> Inr (snd (bucketDataInToSettings bucketData))))))"

definition GetBucket ::
  "(string \<Rightarrow> foreign_error + bucketDataIn option) \<Rightarrow> World \<Rightarrow> 'rs BucketManager \<Rightarrow> string
     \<Rightarrow> 'rs GetBucketOptions option \<Rightarrow> 'rs HttpRequest list \<times> (error + BucketSettings)" where
  "GetBucket jsonDecode w bm bucketName opts0 =
     (let opts = optsOrZero opts0;
          ctx = contextFromMaybeTimeout (timeNow w) (optContext opts) (optTimeout opts)
                  (globalTimeout bm);
          retryStrategy = (if optRetryStrategy opts = None
                           then newRetryStrategyWrapper (optRetryStrategy opts)
                           else defaultRetryStrategy bm)
      in get jsonDecode w bm ctx bucketName retryStrategy)"

text \<open>
  The map of \<open>GetAllBuckets\<close> is filled in the order of the decoded list, a later entry of
  the same name replacing an earlier one; a nil entry makes the conversion panic.
\<close>

fun collectBuckets ::
  "(string \<rightharpoonup> BucketSettings) \<Rightarrow> bucketDataIn option list \<Rightarrow> error + (string \<rightharpoonup> BucketSettings)" where
  "collectBuckets buckets [] = Inr buckets"
| "collectBuckets buckets (None # rest) = Inl (runtimePanic ''nil pointer dereference'')"
| "collectBuckets buckets (Some bucketData # rest) =
     (case bucketDataInToSettings bucketData of
        (name, settings) \<Rightarrow> collectBuckets (buckets(name \<mapsto> settings)) rest)"

definition GetAllBuckets ::
  "(string \<Rightarrow> foreign_error + bucketDataIn option list) \<Rightarrow> World \<Rightarrow> 'rs BucketManager
     \<Rightarrow> 'rs GetAllBucketsOptions option
     \<Rightarrow> 'rs HttpRequest list \<times> (error + (string \<rightharpoonup> BucketSettings))" where
  "GetAllBuckets jsonDecode w bm opts0 =
     (let opts = optsOrZero opts0;
          ctx = contextFromMaybeTimeout (timeNow w) (optContext opts) (optTimeout opts)
                  (globalTimeout bm);
          retryStrategy = (if optRetryStrategy opts = None
                           then newRetryStrategyWrapper (optRetryStrategy opts)
                           else defaultRetryStrategy bm);
          req = \<lparr>reqService = MgmtService,
                  reqPath = ''/pools/default/buckets'',
                  reqMethod = ''GET'',
                  reqBody = '''',
                  reqContentType = '''',
                  reqContext = ctx,
                  reqIsIdempotent = True,
                  reqRetryStrategy = retryStrategy,
                  reqUniqueId = newUUID w\<rparr>
      in ([req],
          case httpClient bm req of
            Inl err \<Rightarrow>
              if err = DeadlineExceeded then Inl (timeoutError (reqUniqueId req) ''mgmt'')
              else Inl (passedOn err)
          | Inr resp \<Rightarrow>
              if StatusCode resp \<noteq> 200 then
                (case RespBody resp of
                   Inl err \<Rightarrow> Inl (passedOn err)
                 | Inr data \<Rightarrow> Inl (bucketManagerError data (StatusCode resp)))
              else
                (case RespBody resp of
                   Inl err \<Rightarrow> Inl (passedOn err)
                 | Inr data \<Rightarrow>
                     (case jsonDecode data of
                        Inl err \<Rightarrow> Inl (passedOn err)
                      | Inr bucketsData \<Rightarrow> collectBuckets Map.empty bucketsData))))"

text \<open>\<open>settingsToPostData\<close>: the checks and the form fields, in the order of the source.\<close>

definition settingsToPostData :: "BucketSettings \<Rightarrow> error + Values" where
  "settingsToPostData settings =
     (if Name settings = '''' then Inl (invalidArgumentsError ''Name invalid, must be set.'')
      else if RAMQuotaMB settings < 100
        then Inl (invalidArgumentsError ''Memory quota invalid, must be greater than 100MB'')
      else
        let posts0 = Values_Add Map.empty ''name'' (Name settings);
            posts1 = (if FlushEnabled settings then Values_Add posts0 ''flushEnabled'' ''1''
                      else Values_Add posts0 ''flushEnabled'' ''0'');
            posts2 = (if ReplicaIndexDisabled settings then Values_Add posts1 ''replicaIndex'' ''0''
                      else Values_Add posts1 ''replicaIndex'' ''1'');
            finish = (\<lambda>posts3.
               let posts4 = Values_Add posts3 ''ramQuotaMB'' (SprintfD (RAMQuotaMB settings));
                   posts5 = (if EvictionPolicy settings \<noteq> ''''
                             then Values_Add posts4 ''evictionPolicy'' (EvictionPolicy settings)
                             else posts4);
                   posts6 = (if MaxTTL settings > 0
                             then Values_Add posts5 ''maxTTL'' (SprintfD (MaxTTL settings))
                             else posts5);
                   posts7 = (if CompressionMode settings \<noteq> ''''
                             then Values_Add posts6 ''compressionMode'' (CompressionMode settings)
                             else posts6)
               in Inr posts7)
        in if BucketType settings = CouchbaseBucketType then
             finish (Values_Add (Values_Add posts2 ''bucketType'' (BucketType settings))
                       ''replicaNumber'' (SprintfD (NumReplicas settings)))
           else if BucketType settings = MemcachedBucketType then
             (if NumReplicas settings > 0
              then Inl (invalidArgumentsError ''replicas cannot be used with memcached buckets'')
              else finish (Values_Add posts2 ''bucketType'' (BucketType settings)))
           else if BucketType settings = EphemeralBucketType then
             finish (Values_Add (Values_Add posts2 ''bucketType'' (BucketType settings))
                       ''replicaNumber'' (SprintfD (NumReplicas settings)))
           else Inl (invalidArgumentsError ''Unrecognized bucket type''))"

text \<open>
  The four operations without a result value return the error, or nil (\<open>None\<close>). The two
  that send settings dispatch nothing when the settings are refused.
\<close>

definition CreateBucket ::
  "(Values \<Rightarrow> string) \<Rightarrow> World \<Rightarrow> 'rs BucketManager \<Rightarrow> CreateBucketSettings
     \<Rightarrow> 'rs CreateBucketOptions option \<Rightarrow> 'rs HttpRequest list \<times> error option" where
  "CreateBucket Encode w bm settings opts0 =
     (let opts = optsOrZero opts0;
          ctx = contextFromMaybeTimeout (timeNow w) (optContext opts) (optTimeout opts)
                  (globalTimeout bm);
          retryStrategy = (if optRetryStrategy opts = None
                           then newRetryStrategyWrapper (optRetryStrategy opts)
                           else defaultRetryStrategy bm)
      in case settingsToPostData (BucketSettings.truncate settings) of
           Inl err \<Rightarrow> ([], Some err)
         | Inr posts0 \<Rightarrow>
             let posts = (if ConflictResolutionType settings \<noteq> ''''
                          then Values_Add posts0 ''conflictResolutionType''
                                 (ConflictResolutionType settings)
                          else posts0);
                 req = \<lparr>reqService = MgmtService,
                         reqPath = ''/pools/default/buckets'',
                         reqMethod = ''POST'',
                         reqBody = Encode posts,
                         reqContentType = ''application/x-www-form-urlencoded'',
                         reqContext = ctx,
                         reqIsIdempotent = False,
                         reqRetryStrategy = retryStrategy,
                         reqUniqueId = newUUID w\<rparr>
             in ([req],
                 case httpClient bm req of
                   Inl err \<Rightarrow>
                     if err = DeadlineExceeded then Some (timeoutError (reqUniqueId req) ''mgmt'')
                     else Some (passedOn err)
                 | Inr resp \<Rightarrow>
                     if StatusCode resp \<noteq> 202 then
                       (case RespBody resp of
                          Inl err \<Rightarrow> Some (passedOn err)
                        | Inr data \<Rightarrow> Some (bucketManagerError data (StatusCode resp)))
                     else None))"

definition UpdateBucket ::
  "(Values \<Rightarrow> string) \<Rightarrow> World \<Rightarrow> 'rs BucketManager \<Rightarrow> BucketSettings
     \<Rightarrow> 'rs UpdateBucketOptions option \<Rightarrow> 'rs HttpRequest list \<times> error option" where
  "UpdateBucket Encode w bm settings opts0 =
     (let opts = optsOrZero opts0;
          ctx = contextFromMaybeTimeout (timeNow w) (optContext opts) (optTimeout opts)
                  (globalTimeout bm);
          retryStrategy = (if optRetryStrategy opts = None
                           then newRetryStrategyWrapper (optRetryStrategy opts)
                           else defaultRetryStrategy bm)
      in case settingsToPostData settings of
           Inl err \<Rightarrow> ([], Some err)
         | Inr posts \<Rightarrow>
             let req = \<lparr>reqService = MgmtService,
                         reqPath = ''/pools/default/buckets/'' @ Name settings,
                         reqMethod = ''POST'',
                         reqBody = Encode posts,
                         reqContentType = ''application/x-www-form-urlencoded'',
                         reqContext = ctx,
                         reqIsIdempotent = False,
                         reqRetryStrategy = retryStrategy,
                         reqUniqueId = newUUID w\<rparr>
             in ([req],
                 case httpClient bm req of
                   Inl err \<Rightarrow>
                     if err = DeadlineExceeded then Some (timeoutError (reqUniqueId req) ''mgmt'')
                     else Some (passedOn err)
                 | Inr resp \<Rightarrow>
                     if StatusCode resp \<noteq> 200 then
                       (case RespBody resp of
                          Inl err \<Rightarrow> Some (passedOn err)
                        | Inr data \<Rightarrow> Some (bucketManagerError data (StatusCode resp)))
                     else None))"

definition DropBucket ::
  "World \<Rightarrow> 'rs BucketManager \<Rightarrow> string \<Rightarrow> 'rs DropBucketOptions option
     \<Rightarrow> 'rs HttpRequest list \<times> error option" where
  "DropBucket w bm name opts0 =
     (let opts = optsOrZero opts0;
          ctx = contextFromMaybeTimeout (timeNow w) (optContext opts) (optTimeout opts)
                  (globalTimeout bm);
          retryStrategy = (if optRetryStrategy opts = None
                           then newRetryStrategyWrapper (optRetryStrategy opts)
                           else defaultRetryStrategy bm);
          req = \<lparr>reqService = MgmtService,
                  reqPath = ''/pools/default/buckets/'' @ name,
                  reqMethod = ''DELETE'',
                  reqBody = '''',
                  reqContentType = '''',
                  reqContext = ctx,
                  reqIsIdempotent = False,
                  reqRetryStrategy = retryStrategy,
                  reqUniqueId = newUUID w\<rparr>
      in ([req],
          case httpClient bm req of
            Inl err \<Rightarrow>
              if err = DeadlineExceeded then Some (timeoutError (reqUniqueId req) ''mgmt'')
              else Some (passedOn err)
          | Inr resp \<Rightarrow>
              if StatusCode resp \<noteq> 200 then
                (case RespBody resp of
                   Inl err \<Rightarrow> Some (passedOn err)
                 | Inr data \<Rightarrow> Some (bucketManagerError data (StatusCode resp)))
              else None))"

definition FlushBucket ::
  "World \<Rightarrow> 'rs BucketManager \<Rightarrow> string \<Rightarrow> 'rs FlushBucketOptions option
     \<Rightarrow> 'rs HttpRequest list \<times> error option" where
  "FlushBucket w bm name opts0 =
     (let opts = optsOrZero opts0;
          ctx = contextFromMaybeTimeout (timeNow w) (optContext opts) (optTimeout opts)
                  (globalTimeout bm);
          retryStrategy = (if optRetryStrategy opts = None
                           then newRetryStrategyWrapper (optRetryStrategy opts)
                           else defaultRetryStrategy bm);
          req = \<lparr>reqService = MgmtService,
                  reqPath = ''/pools/default/buckets/'' @ name @ ''/controller/doFlush'',
                  reqMethod = ''POST'',
                  reqBody = '''',
                  reqContentType = '''',
                  reqContext = ctx,
                  reqIsIdempotent = False,
                  reqRetryStrategy = retryStrategy,
                  reqUniqueId = newUUID w\<rparr>
      in ([req],
          case httpClient bm req of
            Inl err \<Rightarrow>
              if err = DeadlineExceeded then Some (timeoutError (reqUniqueId req) ''mgmt'')
              else Some (passedOn err)
          | Inr resp \<Rightarrow>
              if StatusCode resp \<noteq> 200 then
                (case RespBody resp of
                   Inl err \<Rightarrow> Some (passedOn err)
                 | Inr data \<Rightarrow> Some (bucketManagerError data (StatusCode resp)))
              else None))"

text \<open>
  For stating what the operations do with a response: an engine that answers every request
  with the same response, the error part of a result, and the reading of "a
  \<open>bucketManagerError\<close> carrying the status code and the body is returned exactly when the
  status differs from the success code (and the body could be read)".
\<close>

definition answering :: "HttpResponse \<Rightarrow> 'rs httpProvider" where
  "answering resp req = Inr resp"

definition errorOf :: "error + 'a \<Rightarrow> error option" where
  "errorOf r = (case r of Inl err \<Rightarrow> Some err | Inr v \<Rightarrow> None)"

fun isBucketManagerError :: "error option \<Rightarrow> bool" where
  "isBucketManagerError (Some (bucketManagerError m c)) = True"
| "isBucketManagerError e = False"

definition statusErrorExactly :: "int \<Rightarrow> HttpResponse \<Rightarrow> error option \<Rightarrow> bool" where
  "statusErrorExactly successCode resp err =
     (case RespBody resp of
        Inr data \<Rightarrow>
          (if StatusCode resp \<noteq> successCode
           then err = Some (bucketManagerError data (StatusCode resp))
           else \<not> isBucketManagerError err)
      | Inl readErr \<Rightarrow>
          (if StatusCode resp \<noteq> successCode
           then err = Some (passedOn readErr)
           else \<not> isBucketManagerError err))"

section \<open>User management: listing users\<close>

record 'rs UserManager =
  umHttpClient :: "'rs httpProvider"
  umGlobalTimeout :: Duration
  umDefaultRetryStrategy :: "'rs retryStrategyWrapper"

record Role =
  roleName :: string
  roleBucket :: string

record Origin =
  originType :: string
  originName :: string

record RoleAndOrigins =
  raoRole :: Role
  raoOrigins :: "Origin list option"

record User =
  Username :: string
  DisplayName :: string
  Roles :: "Role list"
  Groups :: "string list"
  Password :: string

type_synonym AuthDomain = string

definition LocalDomain :: AuthDomain where
  "LocalDomain = ''local''"

record UserAndMetadata =
  Domain :: AuthDomain
  User :: User
  EffectiveRoles :: "Role list"
  EffectiveRolesAndOrigins :: "RoleAndOrigins list"
  ExternalGroups :: "string list"
  PasswordChanged :: int

text \<open>In the decoded JSON a list of origins may be nil, which is told apart from empty.\<close>

record roleOriginsJson =
  rojRoleName :: string
  rojBucketName :: string
  rojOrigins :: "Origin list option"

record userMetadataJson =
  umjID :: string
  umjName :: string
  umjRoles :: "roleOriginsJson list"
  umjGroups :: "string list"
  umjDomain :: AuthDomain
  umjExternalGroups :: "string list"
  umjPasswordChanged :: int

text \<open>
  One pass of the loop of \<open>transformUserMetadataJson\<close> over a role: the three lists
  (roles, effective roles, effective roles with origins) are extended in turn. A role
  counts as the user's own when it has no origins at all or an origin of type \<open>user\<close>.
\<close>

definition transformRole ::
  "Role list \<times> Role list \<times> RoleAndOrigins list \<Rightarrow> roleOriginsJson
     \<Rightarrow> Role list \<times> Role list \<times> RoleAndOrigins list" where
  "transformRole acc roleData =
     (case acc of (roles, effectiveRoles, effectiveRolesAndOrigins) \<Rightarrow>
        let role = \<lparr>roleName = rojRoleName roleData, roleBucket = rojBucketName roleData\<rparr>;
            effectiveRoles1 = effectiveRoles @ [role];
            effectiveRolesAndOrigins1 = effectiveRolesAndOrigins @
               [\<lparr>raoRole = role, raoOrigins = rojOrigins roleData\<rparr>];
            roles1 = (if rojOrigins roleData = None then roles @ [role] else roles);
            roles2 = (if \<exists>origin \<in> set (case rojOrigins roleData of None \<Rightarrow> [] | Some os \<Rightarrow> os).
                           originType origin = ''user''
                      then roles1 @ [role] else roles1)
        in (roles2, effectiveRoles1, effectiveRolesAndOrigins1))"

definition transformUserMetadataJson :: "userMetadataJson \<Rightarrow> UserAndMetadata" where
  "transformUserMetadataJson userData =
     (case foldl transformRole ([], [], []) (umjRoles userData) of
        (roles, effectiveRoles, effectiveRolesAndOrigins) \<Rightarrow>
          \<lparr>Domain = umjDomain userData,
           User = \<lparr>Username = umjID userData, DisplayName = umjName userData, Roles = roles,
                   Groups = umjGroups userData, Password = ''''\<rparr>,
           EffectiveRoles = effectiveRoles,
           EffectiveRolesAndOrigins = effectiveRolesAndOrigins,
           ExternalGroups = umjExternalGroups userData,
           PasswordChanged = umjPasswordChanged userData\<rparr>)"

record 'rs GetAllUsersOptions = "'rs MgmtOptions" +
  DomainName :: string

definition GetAllUsers ::
  "(string \<Rightarrow> foreign_error + userMetadataJson list) \<Rightarrow> World \<Rightarrow> 'rs UserManager
     \<Rightarrow> 'rs GetAllUsersOptions option
     \<Rightarrow> 'rs HttpRequest list \<times> (error + UserAndMetadata list)" where
  "GetAllUsers jsonDecode w um opts0 =
     (let opts = (case opts0 of
                    None \<Rightarrow> \<lparr>optTimeout = 0, optContext = None, optRetryStrategy = None,
                              DomainName = ''''\<rparr>
                  | Some o1 \<Rightarrow> o1);
          opts1 = (if DomainName opts = '''' then opts\<lparr>DomainName := LocalDomain\<rparr> else opts);
          ctx = contextFromMaybeTimeout (timeNow w) (optContext opts1) (optTimeout opts1)
                  (umGlobalTimeout um);
          retryStrategy = (if optRetryStrategy opts1 = None
                           then newRetryStrategyWrapper (optRetryStrategy opts1)
                           else umDefaultRetryStrategy um);
          req = \<lparr>reqService = MgmtService,
                  reqPath = ''/settings/rbac/users/'' @ DomainName opts1,
                  reqMethod = ''GET'',
                  reqBody = '''',
                  reqContentType = '''',
                  reqContext = ctx,
                  reqIsIdempotent = True,
                  reqRetryStrategy = retryStrategy,
                  reqUniqueId = newUUID w\<rparr>
      in ([req],
          case umHttpClient um req of
            Inl err \<Rightarrow>
              if err = DeadlineExceeded then Inl (timeoutError (reqUniqueId req) ''mgmt'')
              else Inl (passedOn err)
          | Inr resp \<Rightarrow>
              if StatusCode resp < 200 \<or> StatusCode resp \<ge> 300 then
                (case RespBody resp of
                   Inl err \<Rightarrow> Inl (passedOn err)
                 | Inr data \<Rightarrow> Inl (userManagerError (StatusCode resp) data))
              else
                (case RespBody resp of
                   Inl err \<Rightarrow> Inl (passedOn err)
                 | Inr data \<Rightarrow>
                     (case jsonDecode data of
                        Inl err \<Rightarrow> Inl (passedOn err)
                      | Inr usersData \<Rightarrow> Inr (map transformUserMetadataJson usersData)))))"

section \<open>View index management: design documents\<close>

record 'rs ViewIndexManager =
  vmBucketName :: string
  vmHttpClient :: "'rs httpProvider"
  vmGlobalTimeout :: Duration
  vmDefaultRetryStrategy :: "'rs retryStrategyWrapper"

record View =
  viewMap :: string
  viewReduce :: string

record DesignDocument =
  ddocNameField :: string
  ddocViews :: "string \<rightharpoonup> View"

type_synonym 'rs GetDesignDocumentOptions = "'rs MgmtOptions"
type_synonym 'rs UpsertDesignDocumentOptions = "'rs MgmtOptions"
type_synonym 'rs PublishDesignDocumentOptions = "'rs MgmtOptions"

text \<open>
  \<open>getDesignDocument\<close> takes non-nil options. The decoder fills the views of the document;
  the name is set from the requested name with one \<open>dev_\<close> prefix removed.
\<close>

definition getDesignDocument ::
  "(string \<Rightarrow> foreign_error + (string \<rightharpoonup> View)) \<Rightarrow> World \<Rightarrow> 'rs ViewIndexManager \<Rightarrow> string
     \<Rightarrow> DesignDocumentNamespace \<Rightarrow> 'rs GetDesignDocumentOptions
     \<Rightarrow> 'rs HttpRequest list \<times> (error + DesignDocument)" where
  "getDesignDocument jsonDecode w vm name0 namespace opts =
     (let ctx = contextFromMaybeTimeout (timeNow w) (optContext opts) (optTimeout opts)
                  (vmGlobalTimeout vm);
          name = ddocName name0 namespace;
          retryStrategy = (if optRetryStrategy opts = None
                           then newRetryStrategyWrapper (optRetryStrategy opts)
                           else vmDefaultRetryStrategy vm);
          req = \<lparr>reqService = CapiService,
                  reqPath = ''/_design/'' @ name,
                  reqMethod = ''GET'',
                  reqBody = '''',
                  reqContentType = '''',
                  reqContext = ctx,
                  reqIsIdempotent = True,
                  reqRetryStrategy = retryStrategy,
                  reqUniqueId = newUUID w\<rparr>
      in ([req],
          case vmHttpClient vm req of
            Inl err \<Rightarrow>
              if err = DeadlineExceeded then Inl (timeoutError (reqUniqueId req) ''view'')
              else Inl (passedOn err)
          | Inr resp \<Rightarrow>
              if StatusCode resp \<noteq> 200 then
                (case RespBody resp of
                   Inl err \<Rightarrow> Inl (passedOn err)
                 | Inr data \<Rightarrow>
                     Inl (viewIndexError (StatusCode resp) data (StatusCode resp = 404)))
              else
                (case RespBody resp of
                   Inl err \<Rightarrow> Inl (passedOn err)
                 | Inr data \<Rightarrow>
                     (case jsonDecode data of
                        Inl err \<Rightarrow> Inl (passedOn err)
                      | Inr views \<Rightarrow>
                          Inr \<lparr>ddocNameField = TrimPrefix name ''dev_'', ddocViews = views\<rparr>))))"

definition GetDesignDocument ::
  "(string \<Rightarrow> foreign_error + (string \<rightharpoonup> View)) \<Rightarrow> World \<Rightarrow> 'rs ViewIndexManager \<Rightarrow> string
     \<Rightarrow> DesignDocumentNamespace \<Rightarrow> 'rs GetDesignDocumentOptions option
     \<Rightarrow> 'rs HttpRequest list \<times> (error + DesignDocument)" where
  "GetDesignDocument jsonDecode w vm name namespace opts =
     getDesignDocument jsonDecode w vm name namespace (optsOrZero opts)"

text \<open>
  \<open>upsertDesignDocument\<close> encodes the document before it renames it, sends no unique id,
  and expects status 201.
\<close>

definition upsertDesignDocument ::
  "(DesignDocument \<Rightarrow> foreign_error + string) \<Rightarrow> World \<Rightarrow> 'rs ViewIndexManager
     \<Rightarrow> DesignDocument \<Rightarrow> DesignDocumentNamespace \<Rightarrow> 'rs UpsertDesignDocumentOptions
     \<Rightarrow> 'rs HttpRequest list \<times> error option" where
  "upsertDesignDocument jsonMarshal w vm ddoc namespace opts =
     (let ctx = contextFromMaybeTimeout (timeNow w) (optContext opts) (optTimeout opts)
                  (vmGlobalTimeout vm)
      in case jsonMarshal ddoc of
           Inl err \<Rightarrow> ([], Some (passedOn err))
         | Inr data \<Rightarrow>
             let ddoc1 = ddoc\<lparr>ddocNameField := ddocName (ddocNameField ddoc) namespace\<rparr>;
                 retryStrategy = (if optRetryStrategy opts = None
                                  then newRetryStrategyWrapper (optRetryStrategy opts)
                                  else vmDefaultRetryStrategy vm);
                 req = \<lparr>reqService = CapiService,
                         reqPath = ''/_design/'' @ ddocNameField ddoc1,
                         reqMethod = ''PUT'',
                         reqBody = data,
                         reqContentType = '''',
                         reqContext = ctx,
                         reqIsIdempotent = False,
                         reqRetryStrategy = retryStrategy,
                         reqUniqueId = ''''\<rparr>
             in ([req],
                 case vmHttpClient vm req of
                   Inl err \<Rightarrow>
                     if err = DeadlineExceeded then Some (timeoutError (reqUniqueId req) ''view'')
                     else Some (passedOn err)
                 | Inr resp \<Rightarrow>
                     if StatusCode resp \<noteq> 201 then
                       (case RespBody resp of
                          Inl err \<Rightarrow> Some (passedOn err)
                        | Inr data1 \<Rightarrow> Some (viewIndexError (StatusCode resp) data1 False))
                     else None))"

text \<open>
  \<open>PublishDesignDocument\<close> reads the document from the development namespace and writes
  it to the production namespace, both under the context it made.
\<close>

fun publishReadError :: "error \<Rightarrow> error" where
  "publishReadError (viewIndexError statusCode message indexMissing) =
     (if indexMissing then viewIndexError 0 ''Development design document does not exist'' True
      else viewIndexError statusCode message indexMissing)"
| "publishReadError err = err"

definition PublishDesignDocument ::
  "(string \<Rightarrow> foreign_error + (string \<rightharpoonup> View)) \<Rightarrow> (DesignDocument \<Rightarrow> foreign_error + string)
     \<Rightarrow> World \<Rightarrow> 'rs ViewIndexManager \<Rightarrow> string \<Rightarrow> 'rs PublishDesignDocumentOptions option
     \<Rightarrow> 'rs HttpRequest list \<times> error option" where
  "PublishDesignDocument jsonDecode jsonMarshal w vm name opts0 =
     (let opts = optsOrZero opts0;
          ctx = contextFromMaybeTimeout (timeNow w) (optContext opts) (optTimeout opts)
                  (vmGlobalTimeout vm);
          inner = \<lparr>optTimeout = 0, optContext = Some ctx,
                    optRetryStrategy = optRetryStrategy opts\<rparr>
      in case getDesignDocument jsonDecode w vm name DevelopmentDesignDocumentNamespace inner of
           (reqs1, Inl err) \<Rightarrow> (reqs1, Some (publishReadError err))
         | (reqs1, Inr devdoc) \<Rightarrow>
             (case upsertDesignDocument jsonMarshal w vm devdoc
                     ProductionDesignDocumentNamespace inner of
                (reqs2, Some err) \<Rightarrow> (reqs1 @ reqs2, Some (errorsWrap err ''failed to create ''))
              | (reqs2, None) \<Rightarrow> (reqs1 @ reqs2, None)))"

section \<open>View query options\<close>

type_synonym ViewScanConsistency = int
type_synonym ViewOrdering = int
type_synonym ViewErrorMode = int

definition ViewScanConsistencyNotBounded :: ViewScanConsistency where
  "ViewScanConsistencyNotBounded = 1"

definition ViewScanConsistencyRequestPlus :: ViewScanConsistency where
  "ViewScanConsistencyRequestPlus = 2"

definition ViewScanConsistencyUpdateAfter :: ViewScanConsistency where
  "ViewScanConsistencyUpdateAfter = 3"

definition ViewOrderingAscending :: ViewOrdering where
  "ViewOrderingAscending = 1"

definition ViewOrderingDescending :: ViewOrdering where
  "ViewOrderingDescending = 2"

definition ViewErrorModeContinue :: ViewErrorMode where
  "ViewErrorModeContinue = 1"

definition ViewErrorModeStop :: ViewErrorMode where
  "ViewErrorModeStop = 2"

text \<open>
  The options as \<open>toURLValues\<close> reads them. The unsigned fields are natural numbers (they
  are only compared with zero and printed). The keys are \<open>interface{}\<close> values, of which
  \<open>IfaceNil\<close> is nil. \<open>Raw\<close> is a map from parameter names to values; a nil map and an empty
  one behave alike. The serializer of the result rows is no part of the form and is left
  out.
\<close>

record ('a, 'rs) ViewOptions =
  ScanConsistency :: ViewScanConsistency
  Skip :: nat
  Limit :: nat
  Order :: ViewOrdering
  Reduce :: bool
  Group :: bool
  GroupLevel :: nat
  Key :: "'a iface"
  Keys :: "'a iface list"
  StartKey :: "'a iface"
  EndKey :: "'a iface"
  InclusiveEnd :: bool
  StartKeyDocID :: string
  EndKeyDocID :: string
  Namespace :: DesignDocumentNamespace
  Raw :: "string \<rightharpoonup> string"
  viewContext :: "Context option"
  viewTimeout :: Duration
  OnError :: ViewErrorMode
  Debug :: bool
  viewRetryStrategy :: "'rs option"

text \<open>
  \<open>marshalJson\<close> runs the JSON encoder of the standard library, which is a parameter: one
  encoder for a single key and one for the list of keys.
\<close>

record 'a JsonEncoder =
  encodeValue :: "'a iface \<Rightarrow> foreign_error + string"
  encodeList :: "'a iface list \<Rightarrow> foreign_error + string"

definition andThen :: "error + 'a \<Rightarrow> ('a \<Rightarrow> error + 'b) \<Rightarrow> error + 'b" where
  "andThen r f = (case r of Inl err \<Rightarrow> Inl err | Inr v \<Rightarrow> f v)"

text \<open>
  The body of \<open>toURLValues\<close>, block by block in the order of the source. Each block takes
  the form built so far and gives the error it returns early with, or the form it leaves.
\<close>

definition staleBlock :: "('a, 'rs) ViewOptions \<Rightarrow> Values \<Rightarrow> error + Values" where
  "staleBlock opts options =
     (if ScanConsistency opts \<noteq> 0 then
        (if ScanConsistency opts = ViewScanConsistencyRequestPlus
           then Inr (Values_Set options ''stale'' ''false'')
         else if ScanConsistency opts = ViewScanConsistencyNotBounded
           then Inr (Values_Set options ''stale'' ''ok'')
         else if ScanConsistency opts = ViewScanConsistencyUpdateAfter
           then Inr (Values_Set options ''stale'' ''update_after'')
         else Inl (invalidArgumentsError ''unexpected stale option''))
      else Inr options)"

definition skipLimitBlock :: "('a, 'rs) ViewOptions \<Rightarrow> Values \<Rightarrow> error + Values" where
  "skipLimitBlock opts options =
     (let options1 = (if Skip opts \<noteq> 0 then Values_Set options ''skip'' (FormatUint (Skip opts))
                      else options);
          options2 = (if Limit opts \<noteq> 0
                      then Values_Set options1 ''limit'' (FormatUint (Limit opts))
                      else options1)
      in Inr options2)"

definition orderBlock :: "('a, 'rs) ViewOptions \<Rightarrow> Values \<Rightarrow> error + Values" where
  "orderBlock opts options =
     (if Order opts \<noteq> 0 then
        (if Order opts = ViewOrderingAscending
           then Inr (Values_Set options ''descending'' ''false'')
         else if Order opts = ViewOrderingDescending
           then Inr (Values_Set options ''descending'' ''true'')
         else Inl (invalidArgumentsError ''unexpected order option''))
      else Inr options)"

definition reduceBlock :: "('a, 'rs) ViewOptions \<Rightarrow> Values \<Rightarrow> error + Values" where
  "reduceBlock opts options =
     (let options1 = Values_Set options ''reduce'' ''false''
      in if Reduce opts then
           let options2 = Values_Set options1 ''reduce'' ''true'';
               options3 = Values_Set options2 ''group'' ''false'';
               options4 = (if Group opts then Values_Set options3 ''group'' ''true'' else options3);
               options5 = (if GroupLevel opts \<noteq> 0
                           then Values_Set options4 ''group_level'' (FormatUint (GroupLevel opts))
                           else options4)
           in Inr options5
         else Inr options1)"

definition keyBlock :: "'a JsonEncoder \<Rightarrow> ('a, 'rs) ViewOptions \<Rightarrow> Values \<Rightarrow> error + Values" where
  "keyBlock json opts options =
     andThen
       (if Key opts \<noteq> IfaceNil then
          (case encodeValue json (Key opts) of
             Inl err \<Rightarrow> Inl (passedOn err)
           | Inr jsonKey \<Rightarrow> Inr (Values_Set options ''key'' jsonKey))
        else Inr options)
       (\<lambda>options1.
          if length (Keys opts) > 0 then
            (case encodeList json (Keys opts) of
               Inl err \<Rightarrow> Inl (passedOn err)
             | Inr jsonKeys \<Rightarrow> Inr (Values_Set options1 ''keys'' jsonKeys))
          else Inr options1)"

definition rangeBlock :: "'a JsonEncoder \<Rightarrow> ('a, 'rs) ViewOptions \<Rightarrow> Values \<Rightarrow> error + Values" where
  "rangeBlock json opts options =
     andThen
       (if StartKey opts \<noteq> IfaceNil then
          (case encodeValue json (StartKey opts) of
             Inl err \<Rightarrow> Inl (passedOn err)
           | Inr jsonStartKey \<Rightarrow> Inr (Values_Set options ''startkey'' jsonStartKey))
        else Inr (Values_Del options ''startkey''))
       (\<lambda>options1.
          andThen
            (if EndKey opts \<noteq> IfaceNil then
               (case encodeValue json (EndKey opts) of
                  Inl err \<Rightarrow> Inl (passedOn err)
                | Inr jsonEndKey \<Rightarrow> Inr (Values_Set options1 ''endkey'' jsonEndKey))
             else Inr (Values_Del options1 ''endkey''))
            (\<lambda>options2.
               if StartKey opts \<noteq> IfaceNil \<or> EndKey opts \<noteq> IfaceNil then
                 (if InclusiveEnd opts then Inr (Values_Set options2 ''inclusive_end'' ''true'')
                  else Inr (Values_Set options2 ''inclusive_end'' ''false''))
               else Inr options2))"

definition docIDBlock :: "('a, 'rs) ViewOptions \<Rightarrow> Values \<Rightarrow> error + Values" where
  "docIDBlock opts options =
     (let options1 = (if StartKeyDocID opts = '''' then Values_Del options ''startkey_docid''
                      else Values_Set options ''startkey_docid'' (StartKeyDocID opts));
          options2 = (if EndKeyDocID opts = '''' then Values_Del options1 ''endkey_docid''
                      else Values_Set options1 ''endkey_docid'' (EndKeyDocID opts))
      in Inr options2)"

definition onErrorBlock :: "('a, 'rs) ViewOptions \<Rightarrow> Values \<Rightarrow> error + Values" where
  "onErrorBlock opts options =
     (if OnError opts > 0 then
        (if OnError opts = ViewErrorModeContinue
           then Inr (Values_Set options ''on_error'' ''continue'')
         else if OnError opts = ViewErrorModeStop
           then Inr (Values_Set options ''on_error'' ''stop'')
         else Inl (invalidArgumentsError ''unexpected onerror option''))
      else Inr options)"

text \<open>
  The last block sets \<open>debug\<close> and then every entry of \<open>Raw\<close>. The entries have distinct
  keys, so the order in which the map is walked does not matter: each key of \<open>Raw\<close> ends
  with the single value \<open>Raw\<close> gives it.
\<close>

definition debugRawBlock :: "('a, 'rs) ViewOptions \<Rightarrow> Values \<Rightarrow> error + Values" where
  "debugRawBlock opts options =
     (let options1 = (if Debug opts then Values_Set options ''debug'' ''true'' else options)
      in Inr (\<lambda>k. case Raw opts k of None \<Rightarrow> options1 k | Some v \<Rightarrow> Some [v]))"

definition toURLValues :: "'a JsonEncoder \<Rightarrow> ('a, 'rs) ViewOptions \<Rightarrow> error + Values" where
  "toURLValues json opts =
     andThen (andThen (andThen (andThen (andThen (andThen (andThen (andThen
       (staleBlock opts Map.empty)
       (skipLimitBlock opts))
       (orderBlock opts))
       (reduceBlock opts))
       (keyBlock json opts))
       (rangeBlock json opts))
       (docIDBlock opts))
       (onErrorBlock opts))
       (debugRawBlock opts)"

text \<open>The values a result holds for a parameter, or the error of the result.\<close>

definition paramOf :: "error + Values \<Rightarrow> string \<Rightarrow> error + string list option" where
  "paramOf r k = (case r of Inl err \<Rightarrow> Inl err | Inr vals \<Rightarrow> Inr (vals k))"

text \<open>The value of \<open>stale\<close> that goes with a scan consistency; none for zero.\<close>

definition staleFor :: "ViewScanConsistency \<Rightarrow> string list option" where
  "staleFor sc =
     (if sc = ViewScanConsistencyRequestPlus then Some [''false'']
      else if sc = ViewScanConsistencyNotBounded then Some [''ok'']
      else if sc = ViewScanConsistencyUpdateAfter then Some [''update_after'']
      else None)"

text \<open>What \<open>Raw\<close> makes of a parameter: its own value if it has one, else what was there.\<close>

definition rawOr :: "(string \<rightharpoonup> string) \<Rightarrow> string \<Rightarrow> string list option \<Rightarrow> string list option" where
  "rawOr raw k built = (case raw k of Some x \<Rightarrow> Some [x] | None \<Rightarrow> built)"

section \<open>Sub-document lookups\<close>

text \<open>
  The engine's sub-document operation carries an opcode, flags, a path and (for
  mutations) encoded bytes. A \<open>LookupInOp\<close> wraps one.
\<close>

record (overloaded) ('w::len) SubDocOp =
  coreOp :: SubDocOpType
  coreFlags :: "'w word"
  corePath :: string
  coreValue :: "string option"

record (overloaded) ('w::len) LookupInOp =
  lookupOp :: "'w SubDocOp"

record LookupInSpecGetOptions =
  GetIsXattr :: bool

definition getWithFlags :: "'w SubdocFlags \<Rightarrow> string \<Rightarrow> bool \<Rightarrow> ('w::len) LookupInOp" where
  "getWithFlags K path isXattr =
     (let flags0 = (0 :: 'w word);
          flags1 = (if isXattr then flags0 OR SubdocFlagXattr K else flags0)
      in \<lparr>lookupOp = \<lparr>coreOp = SubDocOpGet, coreFlags = flags1, corePath = path,
                        coreValue = None\<rparr>\<rparr>)"

definition Get :: "'w SubdocFlags \<Rightarrow> string \<Rightarrow> LookupInSpecGetOptions option \<Rightarrow> ('w::len) LookupInOp" where
  "Get K path opts =
     (let opts1 = (case opts of None \<Rightarrow> \<lparr>GetIsXattr = False\<rparr> | Some o1 \<Rightarrow> o1)
      in getWithFlags K path (GetIsXattr opts1))"

text \<open>
  The request handed to the key-value provider, and what comes back. The provider either
  refuses the request (the callback never runs and waiting returns the error), or runs
  the callback with a result, an error, or both.
\<close>

record (overloaded) ('w::len) LookupInRequest =
  Key_req :: string
  Ops :: "'w SubDocOp list"
  CollectionName :: string
  ScopeName :: string

record SubDocResult =
  resErr :: "foreign_error option"
  resValue :: "string option"

record CoreLookupInResult =
  coreCas :: "64 word"
  coreOps :: "SubDocResult list"

datatype kvOutcome =
    KvRefused foreign_error
  | KvCalledBack "CoreLookupInResult option" "foreign_error option"

type_synonym 'w kvProvider = "'w LookupInRequest \<Rightarrow> kvOutcome"

record (overloaded) ('w::len) Collection =
  getKvProvider :: "error + 'w kvProvider"
  collectionName :: string
  scopeName :: string

record lookupInPartial =
  partialData :: "string option"
  partialErr :: "error option"

record LookupInResult =
  resultCas :: "64 word"
  contents :: "lookupInPartial list"
  withExpiration :: bool
  expiration :: "32 word"

record LookupInOptions =
  lookupContext :: "Context option"
  lookupTimeout :: Duration
  WithExpiry :: bool

text \<open>
  Three helpers of the callback are declared elsewhere and are parameters:
  whether an engine error has the status "multi-path failure", the enhancement of an
  engine error for a key, and the decoding of a partial result as the expiry
  (\<open>ContentAt\<close> on position 0).
\<close>

record KvHelpers =
  isSubDocBadMulti :: "foreign_error \<Rightarrow> bool"
  maybeEnhanceKVErr :: "foreign_error \<Rightarrow> string \<Rightarrow> bool \<Rightarrow> error"
  expiryContent :: "lookupInPartial \<Rightarrow> error + 32 word"

text \<open>
  The callback writes the results into a slice as long as the list of dispatched
  operations; a result list longer than that is an index out of range.
\<close>

definition fillContents ::
  "KvHelpers \<Rightarrow> string \<Rightarrow> nat \<Rightarrow> SubDocResult list \<Rightarrow> error + lookupInPartial list" where
  "fillContents H key n results =
     (if length results > n then Inl (runtimePanic ''index out of range'')
      else Inr (map (\<lambda>opRes. \<lparr>partialData = resValue opRes,
                              partialErr = map_option (\<lambda>e. maybeEnhanceKVErr H e key False)
                                             (resErr opRes)\<rparr>) results
                @ replicate (n - length results) \<lparr>partialData = None, partialErr = None\<rparr>))"

definition lookupInCallback ::
  "KvHelpers \<Rightarrow> string \<Rightarrow> LookupInOptions \<Rightarrow> nat \<Rightarrow> CoreLookupInResult option
     \<Rightarrow> foreign_error option \<Rightarrow> LookupInResult option \<times> error option" where
  "lookupInCallback H key opts n res err =
     (let proceed =
            (case res of
               None \<Rightarrow> (None, None)
             | Some r \<Rightarrow>
                 (case fillContents H key n (coreOps r) of
                    Inl panic \<Rightarrow> (None, Some panic)
                  | Inr cs \<Rightarrow>
                      let resSet = \<lparr>resultCas = coreCas r, contents = cs, withExpiration = False,
                                     expiration = 0\<rparr>
                      in if WithExpiry opts then
                           (case cs of
                              [] \<Rightarrow> (None, Some (runtimePanic ''index out of range''))
                            | first # rest \<Rightarrow>
                                (case expiryContent H first of
                                   Inl e \<Rightarrow> (None, Some e)
                                 | Inr expiry \<Rightarrow>
                                     (Some (resSet\<lparr>withExpiration := True, expiration := expiry,
                                                   contents := rest\<rparr>), None)))
                         else (Some resSet, None)))
      in case err of
           None \<Rightarrow> proceed
         | Some e \<Rightarrow>
             if \<not> isSubDocBadMulti H e then (None, Some (maybeEnhanceKVErr H e key False))
             else proceed)"

text \<open>
  \<open>lookupIn\<close> returns the requests it handed to the provider next to its two results. The
  expiry operation is put in front of the list before the count of the caller's
  operations is checked; the check comes before anything is dispatched.
\<close>

definition lookupIn ::
  "'w SubdocFlags \<Rightarrow> KvHelpers \<Rightarrow> ('w::len) Collection \<Rightarrow> string \<Rightarrow> 'w LookupInOp list
     \<Rightarrow> LookupInOptions \<Rightarrow> 'w LookupInRequest list \<times> LookupInResult option \<times> error option" where
  "lookupIn K H c key ops opts =
     (case getKvProvider c of
        Inl err \<Rightarrow> ([], None, Some err)
      | Inr agent \<Rightarrow>
          let subdocs0 = map lookupOp ops;
              subdocs = (if WithExpiry opts
                         then [\<lparr>coreOp = SubDocOpGet, coreFlags = SubdocFlagXattr K,
                                 corePath = ''$document.exptime'', coreValue = None\<rparr>] @ subdocs0
                         else subdocs0)
          in if length ops > 16
             then ([], None, Some (errorsNew ''too many lookupIn ops specified, maximum 16''))
             else
               let req = \<lparr>Key_req = key, Ops = subdocs, CollectionName = collectionName c,
                           ScopeName = scopeName c\<rparr>
               in case agent req of
                    KvRefused err \<Rightarrow> ([req], None, Some (passedOn err))
                  | KvCalledBack res err \<Rightarrow>
                      ([req], lookupInCallback H key opts (length subdocs) res err))"

definition LookupIn ::
  "'w SubdocFlags \<Rightarrow> KvHelpers \<Rightarrow> ('w::len) Collection \<Rightarrow> string \<Rightarrow> 'w LookupInOp list
     \<Rightarrow> LookupInOptions option \<Rightarrow> 'w LookupInRequest list \<times> (error + LookupInResult option)" where
  "LookupIn K H c key ops opts0 =
     (let opts = (case opts0 of
                    None \<Rightarrow> \<lparr>lookupContext = None, lookupTimeout = 0, WithExpiry = False\<rparr>
                  | Some o1 \<Rightarrow> o1)
      in case lookupIn K H c key ops opts of
           (reqs, res, Some err) \<Rightarrow> (reqs, Inl err)
         | (reqs, res, None) \<Rightarrow> (reqs, Inr res))"

text \<open>The options \<open>LookupIn\<close> works with, and the expiry operation it may add.\<close>

definition lookupOptsOrZero :: "LookupInOptions option \<Rightarrow> LookupInOptions" where
  "lookupOptsOrZero opts0 =
     (case opts0 of
        None \<Rightarrow> \<lparr>lookupContext = None, lookupTimeout = 0, WithExpiry = False\<rparr>
      | Some o1 \<Rightarrow> o1)"

definition expiryOp :: "'w SubdocFlags \<Rightarrow> ('w::len) SubDocOp" where
  "expiryOp K = \<lparr>coreOp = SubDocOpGet, coreFlags = SubdocFlagXattr K,
                 corePath = ''$document.exptime'', coreValue = None\<rparr>"

section \<open>Query indexes: waiting for indexes to come online\<close>

record QueryIndex =
  ixName :: string
  ixIsPrimary :: bool
  ixType :: string
  ixState :: string
  ixKeyspace :: string
  ixNamespace :: string
  ixIndexKey :: "string list"

text \<open>
  \<open>checkIndexesActive\<close>. For each name of the check list, in order, the first index of
  that name (if any) is collected; a name without an index makes the collected list
  shorter than the check list.
\<close>

definition checkIndexesActive :: "QueryIndex list \<Rightarrow> string list \<Rightarrow> bool \<times> error option" where
  "checkIndexesActive indexes checkList =
     (let checkIndexes =
            concat (map (\<lambda>indexName.
                           case find (\<lambda>ix. ixName ix = indexName) indexes of
                             None \<Rightarrow> []
                           | Some ix \<Rightarrow> [ix]) checkList)
      in if length checkIndexes \<noteq> length checkList
         then (False, Some (queryIndexError 0 ''the index specified does not exist'' True))
         else if list_ex (\<lambda>ix. ixState ix \<noteq> ''online'') checkIndexes then (False, None)
         else (True, None))"

record WatchQueryIndexOptions =
  WatchPrimary :: bool

record WatchQueryIndexTimeout =
  watchTimeout :: Duration
  watchContext :: "Context option"

text \<open>
  One turn of the loop meets the surroundings twice: the query for the indexes of the
  bucket gives an error, or rows and what closing the rows gives; and the clock is read
  when the deadline is checked. A run is played against a list of such turns; when the
  list ends before the loop does, the run has no outcome yet.
\<close>

record poll =
  pollQuery :: "error + QueryIndex list \<times> error option"
  pollNow :: int

definition getAllIndexes :: "error + QueryIndex list \<times> error option \<Rightarrow> error + QueryIndex list" where
  "getAllIndexes queryResult =
     (case queryResult of
        Inl err \<Rightarrow> Inl err
      | Inr (rows, closeErr) \<Rightarrow>
          (case closeErr of Some err \<Rightarrow> Inl err | None \<Rightarrow> Inr rows))"

text \<open>
  What a run leaves: the index lists (or errors) the polls gave, the intervals slept
  between polls, and the outcome: none yet, nil (\<open>Some None\<close>), or an error.
\<close>

record watchRun =
  polled :: "(error + QueryIndex list) list"
  slept :: "Duration list"
  outcome :: "error option option"

fun watchLoop :: "Context \<Rightarrow> string list \<Rightarrow> Duration \<Rightarrow> poll list \<Rightarrow> watchRun" where
  "watchLoop ctx watchList curInterval [] = \<lparr>polled = [], slept = [], outcome = None\<rparr>"
| "watchLoop ctx watchList curInterval (p # rest) =
     (case getAllIndexes (pollQuery p) of
        Inl err \<Rightarrow> \<lparr>polled = [Inl err], slept = [], outcome = Some (Some err)\<rparr>
      | Inr indexes \<Rightarrow>
          (case checkIndexesActive indexes watchList of
             (allOnline, Some err) \<Rightarrow>
               \<lparr>polled = [Inr indexes], slept = [], outcome = Some (Some err)\<rparr>
           | (allOnline, None) \<Rightarrow>
               if allOnline then \<lparr>polled = [Inr indexes], slept = [], outcome = Some None\<rparr>
               else
                 let curInterval1 = curInterval + 500 * Millisecond;
                     curInterval2 = (if 1000 <s curInterval1 then 1000 else curInterval1)
                 in if (case Deadline ctx of
                          Some d \<Rightarrow> pollNow p + sint curInterval2 > d
                        | None \<Rightarrow> False)
                    then \<lparr>polled = [Inr indexes], slept = [],
                          outcome = Some (Some (timeoutError '''' ''''))\<rparr>
                    else
                      let r = watchLoop ctx watchList curInterval2 rest
                      in r\<lparr>polled := Inr indexes # polled r,
                           slept := curInterval2 # slept r\<rparr>))"

definition WatchIndexes ::
  "World \<Rightarrow> Duration \<Rightarrow> string \<Rightarrow> string list \<Rightarrow> WatchQueryIndexTimeout
     \<Rightarrow> WatchQueryIndexOptions option \<Rightarrow> poll list \<Rightarrow> watchRun" where
  "WatchIndexes w qmGlobalTimeout bucketName watchList timeout opts0 script =
     (if watchContext timeout = None \<and> watchTimeout timeout = 0
      then \<lparr>polled = [], slept = [],
            outcome = Some (Some (invalidArgumentsError
              ''either a context or a timeout value must be supplied to watch''))\<rparr>
      else
        let opts = (case opts0 of None \<Rightarrow> \<lparr>WatchPrimary = False\<rparr> | Some o1 \<Rightarrow> o1);
            ctx = contextFromMaybeTimeout (timeNow w) (watchContext timeout)
                    (watchTimeout timeout) qmGlobalTimeout;
            watchList1 = (if WatchPrimary opts then watchList @ [''#primary''] else watchList)
        in watchLoop ctx watchList1 (50 * Millisecond) script)"

text \<open>
  For stating what a poll finds: the names watched; a name being present with state
  \<open>online\<close> (some index of that name is online); the first index of a name being online;
  and a name being absent.
\<close>

definition watched :: "string list \<Rightarrow> WatchQueryIndexOptions option \<Rightarrow> string list" where
  "watched watchList opts0 =
     (if WatchPrimary (case opts0 of None \<Rightarrow> \<lparr>WatchPrimary = False\<rparr> | Some o1 \<Rightarrow> o1)
      then watchList @ [''#primary''] else watchList)"

definition presentOnline :: "QueryIndex list \<Rightarrow> string \<Rightarrow> bool" where
  "presentOnline indexes n = list_ex (\<lambda>ix. ixName ix = n \<and> ixState ix = ''online'') indexes"

definition firstOnline :: "QueryIndex list \<Rightarrow> string \<Rightarrow> bool" where
  "firstOnline indexes n =
     (case find (\<lambda>ix. ixName ix = n) indexes of
        None \<Rightarrow> False
      | Some ix \<Rightarrow> ixState ix = ''online'')"

definition absent :: "QueryIndex list \<Rightarrow> string \<Rightarrow> bool" where
  "absent indexes n = (\<not> list_ex (\<lambda>ix. ixName ix = n) indexes)"

definition indexMissingError :: error where
  "indexMissingError = queryIndexError 0 ''the index specified does not exist'' True"

text \<open>The \<open>timeoutError\<close> with all fields zero, as \<open>WatchIndexes\<close> returns it.\<close>

definition zeroTimeoutError :: error where
  "zeroTimeoutError = timeoutError '''' ''''"

section \<open>Sample values\<close>

text \<open>Concrete managers, responses and settings at which the theorems below are instantiated.\<close>

definition refusedResponse :: HttpResponse where
  "refusedResponse = \<lparr>StatusCode = 500, RespBody = Inr ''quota exceeded''\<rparr>"

definition brokenResponse :: HttpResponse where
  "brokenResponse = \<lparr>StatusCode = 500, RespBody = Inl (ForeignError ''connection reset'')\<rparr>"

definition managerAnswering :: "HttpResponse \<Rightarrow> nat BucketManager" where
  "managerAnswering resp =
     \<lparr>httpClient = answering resp, globalTimeout = 0,
      defaultRetryStrategy = retryStrategyWrapper (Some 0)\<rparr>"

definition sampleWorld :: World where
  "sampleWorld = \<lparr>timeNow = 0, newUUID = ''0000''\<rparr>"

definition sampleSettings :: BucketSettings where
  "sampleSettings =
     \<lparr>Name = ''b'', FlushEnabled = False, ReplicaIndexDisabled = False, RAMQuotaMB = 100,
      NumReplicas = 1, BucketType = ''membase'', EvictionPolicy = '''', MaxTTL = 0,
      CompressionMode = ''''\<rparr>"

definition sampleCreateSettings :: CreateBucketSettings where
  "sampleCreateSettings = BucketSettings.extend sampleSettings \<lparr>ConflictResolutionType = ''''\<rparr>"

definition undecodable :: "string \<Rightarrow> foreign_error + 'a" where
  "undecodable data = Inl (ForeignError ''invalid character'')"

definition sampleEncode :: "Values \<Rightarrow> string" where
  "sampleEncode posts = ''name=b''"

definition userManagerAnswering :: "HttpResponse \<Rightarrow> nat UserManager" where
  "userManagerAnswering resp =
     \<lparr>umHttpClient = answering resp, umGlobalTimeout = 0,
      umDefaultRetryStrategy = retryStrategyWrapper (Some 0)\<rparr>"

definition viewManagerAnswering :: "HttpResponse \<Rightarrow> nat ViewIndexManager" where
  "viewManagerAnswering resp =
     \<lparr>vmBucketName = ''b'', vmHttpClient = answering resp, vmGlobalTimeout = 0,
      vmDefaultRetryStrategy = retryStrategyWrapper (Some 0)\<rparr>"

definition optionsWithStrategy :: "nat option \<Rightarrow> nat MgmtOptions" where
  "optionsWithStrategy s = \<lparr>optTimeout = 0, optContext = None, optRetryStrategy = s\<rparr>"

definition userOptionsWithStrategy :: "nat option \<Rightarrow> nat GetAllUsersOptions" where
  "userOptionsWithStrategy s =
     \<lparr>optTimeout = 0, optContext = None, optRetryStrategy = s, DomainName = ''''\<rparr>"

definition zeroViewOptions :: "(unit, nat) ViewOptions" where
  "zeroViewOptions =
     \<lparr>ScanConsistency = 0, Skip = 0, Limit = 0, Order = 0, Reduce = False, Group = False,
      GroupLevel = 0, Key = IfaceNil, Keys = [], StartKey = IfaceNil, EndKey = IfaceNil,
      InclusiveEnd = False, StartKeyDocID = '''', EndKeyDocID = '''', Namespace = False,
      Raw = Map.empty, viewContext = None, viewTimeout = 0, OnError = 0, Debug = False,
      viewRetryStrategy = None\<rparr>"

definition unencodable :: "'a \<Rightarrow> foreign_error + string" where
  "unencodable v = Inl (ForeignError ''unsupported type'')"

definition noEncoder :: "unit JsonEncoder" where
  "noEncoder = \<lparr>encodeValue = unencodable, encodeList = unencodable\<rparr>"

definition requestPlusOptions :: "(unit, nat) ViewOptions" where
  "requestPlusOptions = zeroViewOptions\<lparr>ScanConsistency := ViewScanConsistencyRequestPlus\<rparr>"

definition badStaleOptions :: "(unit, nat) ViewOptions" where
  "badStaleOptions = zeroViewOptions\<lparr>ScanConsistency := 7\<rparr>"

definition rawStaleOptions :: "(unit, nat) ViewOptions" where
  "rawStaleOptions = zeroViewOptions\<lparr>Raw := [''stale'' \<mapsto> ''ok'']\<rparr>"

definition rawStaleRequestPlusOptions :: "(unit, nat) ViewOptions" where
  "rawStaleRequestPlusOptions =
     zeroViewOptions\<lparr>ScanConsistency := ViewScanConsistencyRequestPlus,
                      Raw := [''stale'' \<mapsto> ''ok'']\<rparr>"

definition badOrderOptions :: "(unit, nat) ViewOptions" where
  "badOrderOptions =
     zeroViewOptions\<lparr>ScanConsistency := ViewScanConsistencyRequestPlus, Order := 7\<rparr>"

definition groupedOptions :: "(unit, nat) ViewOptions" where
  "groupedOptions = zeroViewOptions\<lparr>Reduce := True, Group := True, GroupLevel := 2\<rparr>"

definition rawReduceOptions :: "(unit, nat) ViewOptions" where
  "rawReduceOptions = zeroViewOptions\<lparr>Raw := [''reduce'' \<mapsto> ''true'', ''group'' \<mapsto> ''true'']\<rparr>"

definition engineFlags :: "8 SubdocFlags" where
  "engineFlags = \<lparr>SubdocFlagNone = 0, SubdocFlagCreatePath = 1, SubdocFlagXattr = 4,
                   SubdocFlagUseMacros = 16\<rparr>"

definition silentProvider :: "8 kvProvider" where
  "silentProvider req = KvCalledBack None None"

definition sampleCollection :: "8 Collection" where
  "sampleCollection = \<lparr>getKvProvider = Inr silentProvider, collectionName = ''_default'',
                        scopeName = ''_default''\<rparr>"

definition plainHelpers :: KvHelpers where
  "plainHelpers = \<lparr>isSubDocBadMulti = (\<lambda>e. False),
                    maybeEnhanceKVErr = (\<lambda>e key isInsert. passedOn e),
                    expiryContent = (\<lambda>p. Inr 0)\<rparr>"

definition sixteenOps :: "8 LookupInOp list" where
  "sixteenOps = replicate 16 (Get engineFlags ''a'' None)"

definition seventeenOps :: "8 LookupInOp list" where
  "seventeenOps = replicate 17 (Get engineFlags ''a'' None)"

definition expiryOptions :: LookupInOptions where
  "expiryOptions = \<lparr>lookupContext = None, lookupTimeout = 0, WithExpiry = True\<rparr>"

definition indexNamed :: "string \<Rightarrow> string \<Rightarrow> string \<Rightarrow> QueryIndex" where
  "indexNamed n using st =
     \<lparr>ixName = n, ixIsPrimary = False, ixType = using, ixState = st, ixKeyspace = ''b'',
      ixNamespace = ''default'', ixIndexKey = []\<rparr>"

definition buildingPoll :: poll where
  "buildingPoll = \<lparr>pollQuery = Inr ([indexNamed ''idx'' ''gsi'' ''building''], None), pollNow = 0\<rparr>"

definition onlinePoll :: poll where
  "onlinePoll = \<lparr>pollQuery = Inr ([indexNamed ''idx'' ''gsi'' ''online''], None), pollNow = 0\<rparr>"

definition emptyPoll :: poll where
  "emptyPoll = \<lparr>pollQuery = Inr ([], None), pollNow = 0\<rparr>"

definition twiceNamed :: "QueryIndex list" where
  "twiceNamed = [indexNamed ''idx'' ''view'' ''building'', indexNamed ''idx'' ''gsi'' ''online'']"

definition twiceNamedPoll :: poll where
  "twiceNamedPoll = \<lparr>pollQuery = Inr (twiceNamed, None), pollNow = 0\<rparr>"

definition tenSeconds :: WatchQueryIndexTimeout where
  "tenSeconds = \<lparr>watchTimeout = 10000 * Millisecond, watchContext = None\<rparr>"

definition twiceNamedLatePoll :: poll where
  "twiceNamedLatePoll = \<lparr>pollQuery = Inr (twiceNamed, None), pollNow = 10000000000\<rparr>"

section \<open>Theorems\<close>

lemma hasFlag_zero: "f \<noteq> 0 \<Longrightarrow> \<not> hasFlag 0 f"
  by (auto simp: hasFlag_def)

lemma hasFlag_or_same: "hasFlag (x OR f) f"
  by (simp add: hasFlag_def bit.conj_disj_distrib2)

lemma hasFlag_or_other: "g AND f = 0 \<Longrightarrow> hasFlag (x OR g) f = hasFlag x f"
  by (simp add: hasFlag_def bit.conj_disj_distrib2)

lemma hasFlag_self: "hasFlag f f"
  by (simp add: hasFlag_def)

lemma hasFlag_disjoint: "g AND f = 0 \<Longrightarrow> f \<noteq> 0 \<Longrightarrow> \<not> hasFlag g f"
  by (auto simp: hasFlag_def)

text \<open>
  C7. \<open>MutateInSpec.Insert\<close> returns a dictionary-add operation with the path and the
  value it was given. Its flags contain the create-path flag iff \<open>CreatePath\<close> is set, the
  xattr flag iff \<open>IsXattr\<close> is set or the value is a \<open>MutationMacro\<close>, and the use-macros
  flag iff the value is a \<open>MutationMacro\<close>. This holds for any three flag constants that
  are non-empty and share no bit.
\<close>

theorem C7_insert_builds_dict_add:
  assumes sep: "flagsSeparate K"
  shows "Op (op (Insert K path val opts)) = SubDocOpDictAdd \<and>
         Path (op (Insert K path val opts)) = path \<and>
         Value (op (Insert K path val opts)) = val \<and>
         hasFlag (Flags (op (Insert K path val opts))) (SubdocFlagCreatePath K)
           = CreatePath (insertOptsOrZero opts) \<and>
         hasFlag (Flags (op (Insert K path val opts))) (SubdocFlagXattr K)
           = (IsXattr (insertOptsOrZero opts) \<or> isMutationMacro val) \<and>
         hasFlag (Flags (op (Insert K path val opts))) (SubdocFlagUseMacros K)
           = isMutationMacro val"
proof -
  from sep have nz: "SubdocFlagCreatePath K \<noteq> 0" "SubdocFlagXattr K \<noteq> 0" "SubdocFlagUseMacros K \<noteq> 0"
    and dj: "SubdocFlagCreatePath K AND SubdocFlagXattr K = 0"
            "SubdocFlagCreatePath K AND SubdocFlagUseMacros K = 0"
            "SubdocFlagXattr K AND SubdocFlagUseMacros K = 0"
    by (simp_all add: flagsSeparate_def)
  from dj have dj': "SubdocFlagXattr K AND SubdocFlagCreatePath K = 0"
            "SubdocFlagUseMacros K AND SubdocFlagCreatePath K = 0"
            "SubdocFlagUseMacros K AND SubdocFlagXattr K = 0"
    by (simp_all add: and.commute)
  show ?thesis
    by (cases "isMutationMacro val"; cases "CreatePath (insertOptsOrZero opts)";
        cases "IsXattr (insertOptsOrZero opts)")
       (simp_all add: Insert_def insertOptsOrZero_def Let_def hasFlag_or_same hasFlag_or_other
          hasFlag_zero hasFlag_self hasFlag_disjoint nz dj dj')
qed

theorem C7_insert_builds_dict_add_witness:
  "flagsSeparate \<lparr>SubdocFlagNone = 0, SubdocFlagCreatePath = 1, SubdocFlagXattr = 4,
       SubdocFlagUseMacros = (16 :: 8 word)\<rparr> \<and>
   hasFlag (Flags (op (Insert \<lparr>SubdocFlagNone = 0, SubdocFlagCreatePath = 1, SubdocFlagXattr = 4,
       SubdocFlagUseMacros = (16 :: 8 word)\<rparr> ''a.b'' (IfaceMutationMacro ''cas'' :: unit iface)
       (Some \<lparr>CreatePath = True, IsXattr = False\<rparr>)))) 4 \<and>
   Flags (op (Insert \<lparr>SubdocFlagNone = 0, SubdocFlagCreatePath = 1, SubdocFlagXattr = 4,
       SubdocFlagUseMacros = (16 :: 8 word)\<rparr> ''a.b'' (IfaceMutationMacro ''cas'' :: unit iface)
       (Some \<lparr>CreatePath = True, IsXattr = False\<rparr>))) = 21"
proof -
  have sep: "flagsSeparate \<lparr>SubdocFlagNone = 0, SubdocFlagCreatePath = 1, SubdocFlagXattr = 4,
       SubdocFlagUseMacros = (16 :: 8 word)\<rparr>"
    by (simp add: flagsSeparate_def)
  show ?thesis
    using sep C7_insert_builds_dict_add [OF sep, of "''a.b''" "IfaceMutationMacro ''cas'' :: unit iface"
        "Some \<lparr>CreatePath = True, IsXattr = False\<rparr>"]
    by (simp add: Insert_def Let_def)
qed

text \<open>
  C10. \<open>Decrement(path, delta, opts)\<close> builds the very operation that
  \<open>Increment(path, -delta, opts)\<close> builds: a counter operation at the path, whose value is
  the (64-bit) negation of the delta and whose flags are those of the increment.
\<close>

theorem C10_decrement_is_increment_of_negation:
  "Decrement K path delta opts = Increment K path (- delta) opts \<and>
   Op (op (Decrement K path delta opts)) = SubDocOpCounter \<and>
   Path (op (Decrement K path delta opts)) = path \<and>
   Value (op (Decrement K path delta opts)) = IfaceInt64 (- delta) \<and>
   Flags (op (Decrement K path delta opts)) = Flags (op (Increment K path (- delta) opts))"
  by (simp add: Decrement_def Increment_def Let_def)

subsection \<open>Design document names\<close>

lemma ddocName_development:
  "ddocName name DevelopmentDesignDocumentNamespace =
     (if HasPrefix name ''dev_'' then name else ''dev_'' @ name)"
  by (simp add: ddocName_def)

lemma ddocName_development_prefixed:
  "HasPrefix (ddocName name DevelopmentDesignDocumentNamespace) ''dev_''"
  by (simp add: ddocName_def HasPrefix_def)

text \<open>
  C8. In the production namespace \<open>ddocName\<close> should remove exactly one leading \<open>dev_\<close> and
  keep the rest, so that going to the development name and back gives the name again. The
  code trims with the cutset \<open>dev_\<close> instead: for \<open>vendors\<close> the development name is
  \<open>dev_vendors\<close> and the production name of that is \<open>ndors\<close>, where removing the prefix
  (as \<open>getDesignDocument\<close> does with \<open>TrimPrefix\<close>) gives \<open>vendors\<close>.
\<close>

theorem C8_ddocName_production_trims_cutset:
  "ddocName ''vendors'' DevelopmentDesignDocumentNamespace = ''dev_vendors'' \<and>
   ddocName ''dev_vendors'' ProductionDesignDocumentNamespace = ''ndors'' \<and>
   ddocName (ddocName ''vendors'' DevelopmentDesignDocumentNamespace)
     ProductionDesignDocumentNamespace \<noteq> ''vendors'' \<and>
   TrimPrefix ''dev_vendors'' ''dev_'' = ''vendors'' \<and>
   ddocName ''dev_dev_x'' ProductionDesignDocumentNamespace = ''x''"
  by (simp add: ddocName_def HasPrefix_def TrimLeft_def TrimPrefix_def)

lemma getDesignDocument_paths:
  "map reqPath (fst (getDesignDocument dec w vm name ns opts)) = [''/_design/'' @ ddocName name ns]"
  by (simp add: getDesignDocument_def Let_def)

lemma getDesignDocument_name:
  assumes "snd (getDesignDocument dec w vm name ns opts) = Inr d"
  shows "ddocNameField d = TrimPrefix (ddocName name ns) ''dev_''"
proof -
  let ?req = "hd (fst (getDesignDocument dec w vm name ns opts))"
  show ?thesis
  proof (cases "vmHttpClient vm ?req")
    case (Inl e)
    with assms show ?thesis
      by (simp add: getDesignDocument_def Let_def split: if_splits)
  next
    case (Inr resp)
    show ?thesis
    proof (cases "RespBody resp")
      case (Inl e)
      with Inr assms show ?thesis
        by (simp add: getDesignDocument_def Let_def split: if_splits)
    next
      case body: (Inr data)
      show ?thesis
      proof (cases "dec data")
        case (Inl e)
        with Inr body assms show ?thesis
          by (simp add: getDesignDocument_def Let_def split: if_splits)
      next
        case dd: (Inr views)
        with Inr body assms show ?thesis
          by (simp add: getDesignDocument_def Let_def split: if_splits) auto
      qed
    qed
  qed
qed

lemma upsertDesignDocument_paths:
  "map reqPath (fst (upsertDesignDocument enc w vm d ns opts))
     \<in> {[], [''/_design/'' @ ddocName (ddocNameField d) ns]}"
  by (cases "enc d") (simp_all add: upsertDesignDocument_def Let_def)


text \<open>
  What \<open>PublishDesignDocument\<close> asks of the engine for a name without the prefix: it reads
  \<open>dev_\<close> followed by the name and, when that succeeds and the document can be encoded,
  writes under the name itself.
\<close>

lemma publish_paths:
  assumes np: "\<not> HasPrefix name ''dev_''"
  shows "map reqPath (fst (PublishDesignDocument dec enc w vm name opts))
           \<in> {[''/_design/dev_'' @ name], [''/_design/dev_'' @ name, ''/_design/'' @ name]}"
proof -
  define ctx where "ctx = contextFromMaybeTimeout (timeNow w) (optContext (optsOrZero opts))
      (optTimeout (optsOrZero opts)) (vmGlobalTimeout vm)"
  define inner where "inner = \<lparr>optTimeout = 0, optContext = Some ctx,
      optRetryStrategy = optRetryStrategy (optsOrZero opts)\<rparr>"
  define g where "g = getDesignDocument dec w vm name DevelopmentDesignDocumentNamespace inner"
  have dev: "ddocName name DevelopmentDesignDocumentNamespace = ''dev_'' @ name"
    using np by (simp add: ddocName_def)
  have trim: "TrimPrefix (''dev_'' @ name) ''dev_'' = name"
    by (simp add: TrimPrefix_def HasPrefix_def)
  have gp: "map reqPath (fst g) = [''/_design/dev_'' @ name]"
    unfolding g_def by (simp add: getDesignDocument_paths dev)
  have unfold: "PublishDesignDocument dec enc w vm name opts =
      (case g of
         (reqs1, Inl err) \<Rightarrow> (reqs1, Some (publishReadError err))
       | (reqs1, Inr devdoc) \<Rightarrow>
           (case upsertDesignDocument enc w vm devdoc ProductionDesignDocumentNamespace inner of
              (reqs2, Some err) \<Rightarrow> (reqs1 @ reqs2, Some (errorsWrap err ''failed to create ''))
            | (reqs2, None) \<Rightarrow> (reqs1 @ reqs2, None)))"
    unfolding PublishDesignDocument_def g_def inner_def ctx_def Let_def by (rule refl)
  obtain reqs1 r where g_eq: "g = (reqs1, r)"
    by (cases g)
  from gp g_eq have r1: "map reqPath reqs1 = [''/_design/dev_'' @ name]"
    by simp
  show ?thesis
  proof (cases r)
    case (Inl err)
    with g_eq r1 show ?thesis
      by (simp add: unfold)
  next
    case (Inr devdoc)
    from g_eq Inr have "snd (getDesignDocument dec w vm name DevelopmentDesignDocumentNamespace inner)
        = Inr devdoc"
      by (simp add: g_def)
    then have "ddocNameField devdoc = TrimPrefix (ddocName name DevelopmentDesignDocumentNamespace) ''dev_''"
      by (rule getDesignDocument_name)
    then have nm: "ddocNameField devdoc = name"
      by (simp only: dev trim)
    have prod: "ddocName name ProductionDesignDocumentNamespace = name"
      using np by (simp add: ddocName_def)
    obtain reqs2 e where u_eq:
      "upsertDesignDocument enc w vm devdoc ProductionDesignDocumentNamespace inner = (reqs2, e)"
      by (cases "upsertDesignDocument enc w vm devdoc ProductionDesignDocumentNamespace inner")
    from upsertDesignDocument_paths [of enc w vm devdoc True inner] u_eq nm prod
    have r2: "map reqPath reqs2 \<in> {[], [''/_design/'' @ name]}"
      by simp
    have "fst (PublishDesignDocument dec enc w vm name opts) = reqs1 @ reqs2"
      by (cases e) (simp_all add: unfold g_eq Inr u_eq)
    with r1 r2 show ?thesis
      by auto
  qed
qed

subsection \<open>The retry strategy of a dispatched request\<close>

lemma retry_strategy_of_requests:
  "map reqRetryStrategy (fst (GetBucket dec1 w bm name (Some (opts\<lparr>optRetryStrategy := Some s\<rparr>))))
     = [defaultRetryStrategy bm]"
  "map reqRetryStrategy (fst (GetBucket dec1 w bm name (Some (opts\<lparr>optRetryStrategy := None\<rparr>))))
     = [newRetryStrategyWrapper None]"
  "map reqRetryStrategy (fst (GetBucket dec1 w bm name None)) = [newRetryStrategyWrapper None]"
  "map reqRetryStrategy (fst (GetAllUsers dec2 w um (Some (uopts\<lparr>optRetryStrategy := Some s\<rparr>))))
     = [umDefaultRetryStrategy um]"
  "map reqRetryStrategy (fst (GetAllUsers dec2 w um (Some (uopts\<lparr>optRetryStrategy := None\<rparr>))))
     = [newRetryStrategyWrapper None]"
  "map reqRetryStrategy (fst (getDesignDocument dec3 w vm name ns (opts\<lparr>optRetryStrategy := Some s\<rparr>)))
     = [vmDefaultRetryStrategy vm]"
  "map reqRetryStrategy (fst (getDesignDocument dec3 w vm name ns (opts\<lparr>optRetryStrategy := None\<rparr>)))
     = [newRetryStrategyWrapper None]"
  by (simp_all add: GetBucket_def get_def GetAllUsers_def getDesignDocument_def optsOrZero_def
        Let_def)

text \<open>
  C2. A management operation should hand the engine a wrapper of the caller's retry
  strategy when one is supplied, and the manager's default wrapper otherwise. The code
  tests the option for nil the wrong way round: with strategy 7 supplied, the requests of
  \<open>GetBucket\<close>, \<open>GetAllUsers\<close> and \<open>getDesignDocument\<close> carry the manager's default wrapper
  (here of strategy 0), not a wrapper of 7; with none supplied they carry a wrapper of nil,
  not the default.
\<close>

theorem C2_retry_strategy_selection_inverted:
  "map reqRetryStrategy (fst (GetBucket undecodable sampleWorld (managerAnswering refusedResponse)
      ''b'' (Some (optionsWithStrategy (Some 7))))) = [retryStrategyWrapper (Some 0)] \<and>
   map reqRetryStrategy (fst (GetAllUsers undecodable sampleWorld
      (userManagerAnswering refusedResponse) (Some (userOptionsWithStrategy (Some 7)))))
     = [retryStrategyWrapper (Some 0)] \<and>
   map reqRetryStrategy (fst (getDesignDocument undecodable sampleWorld
      (viewManagerAnswering refusedResponse) ''d'' DevelopmentDesignDocumentNamespace
      (optionsWithStrategy (Some 7)))) = [retryStrategyWrapper (Some 0)] \<and>
   newRetryStrategyWrapper (Some 7) \<noteq> retryStrategyWrapper (Some (0 :: nat)) \<and>
   map reqRetryStrategy (fst (GetBucket undecodable sampleWorld (managerAnswering refusedResponse)
      ''b'' (Some (optionsWithStrategy None)))) = [retryStrategyWrapper None] \<and>
   map reqRetryStrategy (fst (GetAllUsers undecodable sampleWorld
      (userManagerAnswering refusedResponse) (Some (userOptionsWithStrategy None))))
     = [retryStrategyWrapper None] \<and>
   map reqRetryStrategy (fst (getDesignDocument undecodable sampleWorld
      (viewManagerAnswering refusedResponse) ''d'' DevelopmentDesignDocumentNamespace
      (optionsWithStrategy None))) = [retryStrategyWrapper None] \<and>
   defaultRetryStrategy (managerAnswering refusedResponse) \<noteq> retryStrategyWrapper None"
  by (simp add: GetBucket_def get_def GetAllUsers_def getDesignDocument_def optsOrZero_def
        Let_def managerAnswering_def userManagerAnswering_def viewManagerAnswering_def
        optionsWithStrategy_def userOptionsWithStrategy_def newRetryStrategyWrapper_def)

subsection \<open>Bucket management: status codes and errors\<close>

text \<open>
  C3 (amended). Take any of the six \<open>BucketManager\<close> operations whose request reached the
  engine, and let the engine answer with a response. When the status differs from the
  operation's success code (200 for \<open>GetBucket\<close>, \<open>GetAllBuckets\<close>, \<open>UpdateBucket\<close>,
  \<open>DropBucket\<close> and \<open>FlushBucket\<close>; 202 for \<open>CreateBucket\<close>) and the body can be read, the
  operation returns the \<open>bucketManagerError\<close> carrying the status code and the body as
  its message; when reading the body fails, it returns the read error instead; on the
  success code it returns no \<open>bucketManagerError\<close>.
\<close>

theorem C3_bucket_manager_status_errors:
  assumes eng: "httpClient bm = answering resp"
    and cs: "\<not> isl (settingsToPostData (BucketSettings.truncate createSettings))"
    and us: "\<not> isl (settingsToPostData updateSettings)"
  shows "statusErrorExactly 200 resp (errorOf (snd (GetBucket dec1 w bm name opts))) \<and>
         statusErrorExactly 200 resp (errorOf (snd (GetAllBuckets dec2 w bm opts))) \<and>
         statusErrorExactly 202 resp (snd (CreateBucket enc w bm createSettings opts)) \<and>
         statusErrorExactly 200 resp (snd (UpdateBucket enc w bm updateSettings opts)) \<and>
         statusErrorExactly 200 resp (snd (DropBucket w bm name opts)) \<and>
         statusErrorExactly 200 resp (snd (FlushBucket w bm name opts))"
proof (intro conjI)
  show "statusErrorExactly 200 resp (errorOf (snd (GetBucket dec1 w bm name opts)))"
    by (simp add: GetBucket_def get_def eng answering_def statusErrorExactly_def errorOf_def Let_def
          split: sum.splits option.splits)
  have nopanic: "\<not> isBucketManagerError (errorOf (collectBuckets m xs))" for m xs
  proof (induction xs arbitrary: m)
    case Nil
    show ?case by (simp add: errorOf_def)
  next
    case (Cons x xs)
    show ?case
    proof (cases x)
      case None
      then show ?thesis by (simp add: errorOf_def)
    next
      case (Some bucketData)
      then show ?thesis using Cons.IH by (simp split: prod.splits)
    qed
  qed
  have nopanic': "\<not> isBucketManagerError (Some e)" if "collectBuckets m xs = Inl e" for m xs e
    using nopanic [of m xs] that by (simp add: errorOf_def)
  show "statusErrorExactly 200 resp (errorOf (snd (GetAllBuckets dec2 w bm opts)))"
    using nopanic'
    by (auto simp add: GetAllBuckets_def eng answering_def statusErrorExactly_def errorOf_def Let_def
          split: sum.splits option.splits)
  from cs obtain cposts where cp: "settingsToPostData (BucketSettings.truncate createSettings) = Inr cposts"
    by (cases "settingsToPostData (BucketSettings.truncate createSettings)") simp_all
  from us obtain uposts where up: "settingsToPostData updateSettings = Inr uposts"
    by (cases "settingsToPostData updateSettings") simp_all
  show "statusErrorExactly 202 resp (snd (CreateBucket enc w bm createSettings opts))"
    by (simp add: cp CreateBucket_def eng answering_def statusErrorExactly_def Let_def
          split: sum.splits option.splits)
  show "statusErrorExactly 200 resp (snd (UpdateBucket enc w bm updateSettings opts))"
    by (simp add: up UpdateBucket_def eng answering_def statusErrorExactly_def Let_def
          split: sum.splits option.splits)
  show "statusErrorExactly 200 resp (snd (DropBucket w bm name opts))"
    by (simp add: DropBucket_def eng answering_def statusErrorExactly_def Let_def
          split: sum.splits option.splits)
  show "statusErrorExactly 200 resp (snd (FlushBucket w bm name opts))"
    by (simp add: FlushBucket_def eng answering_def statusErrorExactly_def Let_def
          split: sum.splits option.splits)
qed


theorem C3_bucket_manager_status_errors_witness:
  "httpClient (managerAnswering refusedResponse) = answering refusedResponse \<and>
   \<not> isl (settingsToPostData (BucketSettings.truncate sampleCreateSettings)) \<and>
   \<not> isl (settingsToPostData sampleSettings) \<and>
   snd (GetBucket undecodable sampleWorld (managerAnswering refusedResponse) ''b'' None)
     = Inl (bucketManagerError ''quota exceeded'' 500) \<and>
   snd (CreateBucket sampleEncode sampleWorld (managerAnswering refusedResponse)
          sampleCreateSettings None)
     = Some (bucketManagerError ''quota exceeded'' 500) \<and>
   statusErrorExactly 202 refusedResponse
     (snd (CreateBucket sampleEncode sampleWorld (managerAnswering refusedResponse)
          sampleCreateSettings None))"
proof -
  have h1: "httpClient (managerAnswering refusedResponse) = answering refusedResponse"
    by (simp add: managerAnswering_def)
  have h3: "\<not> isl (settingsToPostData sampleSettings)"
    by (simp add: settingsToPostData_def sampleSettings_def CouchbaseBucketType_def Let_def)
  have h2: "\<not> isl (settingsToPostData (BucketSettings.truncate sampleCreateSettings))"
    using h3 by (simp add: sampleCreateSettings_def BucketSettings.truncate_def
        BucketSettings.extend_def sampleSettings_def)
  from C3_bucket_manager_status_errors [OF h1 h2 h3, of undecodable sampleWorld "''b''" None
      undecodable sampleEncode]
  show ?thesis using h1 h2 h3
    by (simp add: statusErrorExactly_def refusedResponse_def errorOf_def split: sum.splits)
qed

text \<open>
  As stated, with "exactly when the status differs", the claim fails where the body of a
  refused request cannot be read: the status is 500, and the error returned is the read
  error, not a \<open>bucketManagerError\<close>.
\<close>

theorem C3_unreadable_body_counterexample:
  "StatusCode brokenResponse \<noteq> 200 \<and>
   snd (GetBucket undecodable sampleWorld (managerAnswering brokenResponse) ''b'' None)
     = Inl (passedOn (ForeignError ''connection reset'')) \<and>
   \<not> isBucketManagerError
       (errorOf (snd (GetBucket undecodable sampleWorld (managerAnswering brokenResponse) ''b'' None)))"
  by (simp add: GetBucket_def get_def managerAnswering_def answering_def brokenResponse_def
        errorOf_def Let_def)

subsection \<open>View query options\<close>

lemma andThen_Inr: "andThen r f = Inr y \<Longrightarrow> \<exists>x. r = Inr x \<and> f x = Inr y"
  by (cases r) (simp_all add: andThen_def)

lemma andThen_InrE:
  assumes "andThen r f = Inr y"
  obtains x where "r = Inr x" and "f x = Inr y"
  using assms by (cases r) (simp_all add: andThen_def)

lemma staleBlock_other:
  "staleBlock opts v = Inr v' \<Longrightarrow> k \<noteq> ''stale'' \<Longrightarrow> v' k = v k"
  by (auto simp add: staleBlock_def Values_Set_def split: if_splits)

lemma staleBlock_stale:
  "staleBlock opts v = Inr v' \<Longrightarrow>
     v' ''stale'' =
       (if ScanConsistency opts = ViewScanConsistencyRequestPlus then Some [''false'']
        else if ScanConsistency opts = ViewScanConsistencyNotBounded then Some [''ok'']
        else if ScanConsistency opts = ViewScanConsistencyUpdateAfter then Some [''update_after'']
        else v ''stale'')"
  by (auto simp add: staleBlock_def Values_Set_def ViewScanConsistencyRequestPlus_def
        ViewScanConsistencyNotBounded_def ViewScanConsistencyUpdateAfter_def split: if_splits)

lemma staleBlock_error:
  "ScanConsistency opts \<notin> {0, ViewScanConsistencyNotBounded, ViewScanConsistencyRequestPlus,
       ViewScanConsistencyUpdateAfter}
     \<Longrightarrow> staleBlock opts v = Inl (invalidArgumentsError ''unexpected stale option'')"
  by (simp add: staleBlock_def)

lemma skipLimitBlock_other:
  "skipLimitBlock opts v = Inr v' \<Longrightarrow> k \<notin> {''skip'', ''limit''} \<Longrightarrow> v' k = v k"
  by (auto simp add: skipLimitBlock_def Values_Set_def Let_def split: if_splits)

lemma orderBlock_other:
  "orderBlock opts v = Inr v' \<Longrightarrow> k \<noteq> ''descending'' \<Longrightarrow> v' k = v k"
  by (auto simp add: orderBlock_def Values_Set_def split: if_splits)

lemma reduceBlock_other:
  "reduceBlock opts v = Inr v' \<Longrightarrow> k \<notin> {''reduce'', ''group'', ''group_level''} \<Longrightarrow> v' k = v k"
  by (auto simp add: reduceBlock_def Values_Set_def Let_def split: if_splits)

lemma reduceBlock_sets:
  assumes "reduceBlock opts v = Inr v'"
  shows "v' ''reduce'' = Some [if Reduce opts then ''true'' else ''false'']"
    and "v' ''group'' = (if Reduce opts then Some [if Group opts then ''true'' else ''false'']
                         else v ''group'')"
    and "v' ''group_level'' = (if Reduce opts \<and> GroupLevel opts \<noteq> 0
                               then Some [FormatUint (GroupLevel opts)] else v ''group_level'')"
  using assms by (auto simp add: reduceBlock_def Values_Set_def Let_def split: if_splits)



lemma andThen_preserves:
  assumes "andThen r f = Inr v'"
    and "\<And>x. r = Inr x \<Longrightarrow> x k = v k"
    and "\<And>x y. f x = Inr y \<Longrightarrow> y k = x k"
  shows "v' k = v k"
proof -
  from assms(1) obtain x where "r = Inr x" and "f x = Inr v'"
    by (cases r) (simp_all add: andThen_def)
  with assms(2,3) show ?thesis
    by metis
qed

lemma keyBlock_other:
  assumes blk: "keyBlock json opts v = Inr v'" and k: "k \<notin> {''key'', ''keys''}"
  shows "v' k = v k"
  using blk unfolding keyBlock_def
proof (rule andThen_preserves)
  fix x
  assume "(if Key opts \<noteq> IfaceNil then
          (case encodeValue json (Key opts) of
             Inl err \<Rightarrow> Inl (passedOn err)
           | Inr jsonKey \<Rightarrow> Inr (Values_Set v ''key'' jsonKey))
        else Inr v) = Inr x"
  with k show "x k = v k"
    by (auto simp add: Values_Set_def split: if_splits sum.splits)
next
  fix x y
  assume "(if length (Keys opts) > 0 then
            (case encodeList json (Keys opts) of
               Inl err \<Rightarrow> Inl (passedOn err)
             | Inr jsonKeys \<Rightarrow> Inr (Values_Set x ''keys'' jsonKeys))
          else Inr x) = Inr y"
  with k show "y k = x k"
    by (auto simp add: Values_Set_def split: if_splits sum.splits)
qed

lemma rangeBlock_other:
  assumes blk: "rangeBlock json opts v = Inr v'"
    and k: "k \<notin> {''startkey'', ''endkey'', ''inclusive_end''}"
  shows "v' k = v k"
  using blk unfolding rangeBlock_def
proof (rule andThen_preserves)
  fix x
  assume "(if StartKey opts \<noteq> IfaceNil then
          (case encodeValue json (StartKey opts) of
             Inl err \<Rightarrow> Inl (passedOn err)
           | Inr jsonStartKey \<Rightarrow> Inr (Values_Set v ''startkey'' jsonStartKey))
        else Inr (Values_Del v ''startkey'')) = Inr x"
  with k show "x k = v k"
    by (auto simp add: Values_Set_def Values_Del_def split: if_splits sum.splits)
next
  fix x y
  assume "andThen
            (if EndKey opts \<noteq> IfaceNil then
               (case encodeValue json (EndKey opts) of
                  Inl err \<Rightarrow> Inl (passedOn err)
                | Inr jsonEndKey \<Rightarrow> Inr (Values_Set x ''endkey'' jsonEndKey))
             else Inr (Values_Del x ''endkey''))
            (\<lambda>options2.
               if StartKey opts \<noteq> IfaceNil \<or> EndKey opts \<noteq> IfaceNil then
                 (if InclusiveEnd opts then Inr (Values_Set options2 ''inclusive_end'' ''true'')
                  else Inr (Values_Set options2 ''inclusive_end'' ''false''))
               else Inr options2) = Inr y"
  then show "y k = x k"
  proof (rule andThen_preserves)
    fix x2
    assume "(if EndKey opts \<noteq> IfaceNil then
               (case encodeValue json (EndKey opts) of
                  Inl err \<Rightarrow> Inl (passedOn err)
                | Inr jsonEndKey \<Rightarrow> Inr (Values_Set x ''endkey'' jsonEndKey))
             else Inr (Values_Del x ''endkey'')) = Inr x2"
    with k show "x2 k = x k"
      by (auto simp add: Values_Set_def Values_Del_def split: if_splits sum.splits)
  next
    fix x2 y2
    assume "(if StartKey opts \<noteq> IfaceNil \<or> EndKey opts \<noteq> IfaceNil then
                 (if InclusiveEnd opts then Inr (Values_Set x2 ''inclusive_end'' ''true'')
                  else Inr (Values_Set x2 ''inclusive_end'' ''false''))
               else Inr x2) = Inr y2"
    with k show "y2 k = x2 k"
      by (auto simp add: Values_Set_def split: if_splits)
  qed
qed

lemma docIDBlock_other:
  "docIDBlock opts v = Inr v' \<Longrightarrow> k \<notin> {''startkey_docid'', ''endkey_docid''} \<Longrightarrow> v' k = v k"
  by (auto simp add: docIDBlock_def Values_Set_def Values_Del_def Let_def split: if_splits)

lemma onErrorBlock_other:
  "onErrorBlock opts v = Inr v' \<Longrightarrow> k \<noteq> ''on_error'' \<Longrightarrow> v' k = v k"
  by (auto simp add: onErrorBlock_def Values_Set_def split: if_splits)

lemma debugRawBlock_lookup:
  "debugRawBlock opts v = Inr v' \<Longrightarrow> k \<noteq> ''debug'' \<Longrightarrow>
     v' k = (case Raw opts k of None \<Rightarrow> v k | Some x \<Rightarrow> Some [x])"
  by (auto simp add: debugRawBlock_def Values_Set_def Let_def split: if_splits option.splits)


lemma andThen_Inr_iff: "andThen r f = Inr y \<longleftrightarrow> (\<exists>x. r = Inr x \<and> f x = Inr y)"
  by (cases r) (simp_all add: andThen_def)

lemma toURLValues_stages:
  assumes "toURLValues json opts = Inr vals"
  obtains v1 v2 v3 v4 v5 v6 v7 v8 where
    "staleBlock opts Map.empty = Inr v1" and "skipLimitBlock opts v1 = Inr v2" and
    "orderBlock opts v2 = Inr v3" and "reduceBlock opts v3 = Inr v4" and
    "keyBlock json opts v4 = Inr v5" and "rangeBlock json opts v5 = Inr v6" and
    "docIDBlock opts v6 = Inr v7" and "onErrorBlock opts v7 = Inr v8" and
    "debugRawBlock opts v8 = Inr vals"
  using assms unfolding toURLValues_def andThen_Inr_iff by blast

lemma toURLValues_stale_error:
  assumes "ScanConsistency opts \<notin> {0, ViewScanConsistencyNotBounded,
      ViewScanConsistencyRequestPlus, ViewScanConsistencyUpdateAfter}"
  shows "toURLValues json opts = Inl (invalidArgumentsError ''unexpected stale option'')"
  by (simp add: toURLValues_def staleBlock_error [OF assms] andThen_def)


lemma toURLValues_param:
  assumes ok: "toURLValues json opts = Inr vals"
  shows "vals ''stale'' = rawOr (Raw opts) ''stale'' (staleFor (ScanConsistency opts))"
    and "ScanConsistency opts \<in> {0, ViewScanConsistencyNotBounded,
           ViewScanConsistencyRequestPlus, ViewScanConsistencyUpdateAfter}"
    and "vals ''reduce'' = rawOr (Raw opts) ''reduce''
           (Some [if Reduce opts then ''true'' else ''false''])"
    and "vals ''group'' = rawOr (Raw opts) ''group''
           (if Reduce opts then Some [if Group opts then ''true'' else ''false''] else None)"
    and "vals ''group_level'' = rawOr (Raw opts) ''group_level''
           (if Reduce opts \<and> GroupLevel opts \<noteq> 0 then Some [FormatUint (GroupLevel opts)]
            else None)"
proof -
  from ok obtain v1 v2 v3 v4 v5 v6 v7 v8 where
    s1: "staleBlock opts Map.empty = Inr v1" and s2: "skipLimitBlock opts v1 = Inr v2" and
    s3: "orderBlock opts v2 = Inr v3" and s4: "reduceBlock opts v3 = Inr v4" and
    s5: "keyBlock json opts v4 = Inr v5" and s6: "rangeBlock json opts v5 = Inr v6" and
    s7: "docIDBlock opts v6 = Inr v7" and s8: "onErrorBlock opts v7 = Inr v8" and
    s9: "debugRawBlock opts v8 = Inr vals"
    by (rule toURLValues_stages)
  show sc: "ScanConsistency opts \<in> {0, ViewScanConsistencyNotBounded,
           ViewScanConsistencyRequestPlus, ViewScanConsistencyUpdateAfter}"
    using s1 staleBlock_error [of opts Map.empty] by fastforce
  have later: "v8 k = v4 k"
    if "k \<in> {''stale'', ''reduce'', ''group'', ''group_level''}" for k
  proof -
    from that have "v5 k = v4 k" by (intro keyBlock_other [OF s5]) auto
    moreover from that have "v6 k = v5 k" by (intro rangeBlock_other [OF s6]) auto
    moreover from that have "v7 k = v6 k" by (intro docIDBlock_other [OF s7]) auto
    moreover from that have "v8 k = v7 k" by (intro onErrorBlock_other [OF s8]) auto
    ultimately show ?thesis by simp
  qed
  have early: "v3 k = None" if "k \<in> {''reduce'', ''group'', ''group_level''}" for k
  proof -
    from that have "v1 k = Map.empty k" by (intro staleBlock_other [OF s1]) auto
    moreover from that have "v2 k = v1 k" by (intro skipLimitBlock_other [OF s2]) auto
    moreover from that have "v3 k = v2 k" by (intro orderBlock_other [OF s3]) auto
    ultimately show ?thesis by simp
  qed
  have raw: "vals k = rawOr (Raw opts) k (v4 k)"
    if "k \<in> {''stale'', ''reduce'', ''group'', ''group_level''}" for k
  proof -
    from that have "k \<noteq> ''debug''" by auto
    from debugRawBlock_lookup [OF s9 this] later [OF that] show ?thesis
      by (simp add: rawOr_def split: option.splits)
  qed
  have "v1 ''stale'' = staleFor (ScanConsistency opts)"
    using staleBlock_stale [OF s1] by (simp add: staleFor_def)
  moreover have "v2 ''stale'' = v1 ''stale''" by (intro skipLimitBlock_other [OF s2]) auto
  moreover have "v3 ''stale'' = v2 ''stale''" by (intro orderBlock_other [OF s3]) auto
  moreover have "v4 ''stale'' = v3 ''stale''" by (intro reduceBlock_other [OF s4]) auto
  ultimately have "v4 ''stale'' = staleFor (ScanConsistency opts)" by simp
  with raw [of "''stale''"] show "vals ''stale'' = rawOr (Raw opts) ''stale'' (staleFor (ScanConsistency opts))"
    by simp
  from raw [of "''reduce''"] reduceBlock_sets(1) [OF s4]
  show "vals ''reduce'' = rawOr (Raw opts) ''reduce''
           (Some [if Reduce opts then ''true'' else ''false''])"
    by simp
  from raw [of "''group''"] reduceBlock_sets(2) [OF s4] early [of "''group''"]
  show "vals ''group'' = rawOr (Raw opts) ''group''
           (if Reduce opts then Some [if Group opts then ''true'' else ''false''] else None)"
    by simp
  from raw [of "''group_level''"] reduceBlock_sets(3) [OF s4] early [of "''group_level''"]
  show "vals ''group_level'' = rawOr (Raw opts) ''group_level''
           (if Reduce opts \<and> GroupLevel opts \<noteq> 0 then Some [FormatUint (GroupLevel opts)]
            else None)"
    by simp
qed


lemmas toURLValues_eval =
  toURLValues_def staleBlock_def skipLimitBlock_def orderBlock_def reduceBlock_def keyBlock_def
  rangeBlock_def docIDBlock_def onErrorBlock_def debugRawBlock_def andThen_def paramOf_def
  Values_Set_def Values_Del_def Let_def zeroViewOptions_def noEncoder_def
  ViewScanConsistencyRequestPlus_def ViewScanConsistencyNotBounded_def
  ViewScanConsistencyUpdateAfter_def ViewOrderingAscending_def ViewOrderingDescending_def

text \<open>
  C5 (amended). Any non-zero \<open>ScanConsistency\<close> other than the three known ones makes
  \<open>toURLValues\<close> return the invalid-arguments error, and no values. Whenever
  \<open>toURLValues\<close> succeeds and \<open>Raw\<close> has no entry \<open>stale\<close>, the form has \<open>stale\<close> equal to
  \<open>false\<close> for \<open>ViewScanConsistencyRequestPlus\<close>, \<open>ok\<close> for \<open>ViewScanConsistencyNotBounded\<close>,
  \<open>update_after\<close> for \<open>ViewScanConsistencyUpdateAfter\<close>, and no \<open>stale\<close> when
  \<open>ScanConsistency\<close> is zero. An entry \<open>stale\<close> of \<open>Raw\<close> replaces whatever the scan
  consistency gave.
\<close>

theorem C5_stale_parameter:
  "(ScanConsistency opts \<notin> {0, ViewScanConsistencyNotBounded, ViewScanConsistencyRequestPlus,
        ViewScanConsistencyUpdateAfter}
      \<longrightarrow> toURLValues json opts = Inl (invalidArgumentsError ''unexpected stale option'')) \<and>
   (\<not> isl (toURLValues json opts) \<and> Raw opts ''stale'' = None \<longrightarrow>
      (ScanConsistency opts = ViewScanConsistencyRequestPlus
         \<longrightarrow> paramOf (toURLValues json opts) ''stale'' = Inr (Some [''false''])) \<and>
      (ScanConsistency opts = ViewScanConsistencyNotBounded
         \<longrightarrow> paramOf (toURLValues json opts) ''stale'' = Inr (Some [''ok''])) \<and>
      (ScanConsistency opts = ViewScanConsistencyUpdateAfter
         \<longrightarrow> paramOf (toURLValues json opts) ''stale'' = Inr (Some [''update_after''])) \<and>
      (ScanConsistency opts = 0
         \<longrightarrow> paramOf (toURLValues json opts) ''stale'' = Inr None)) \<and>
   (\<not> isl (toURLValues json opts) \<and> Raw opts ''stale'' = Some x
      \<longrightarrow> paramOf (toURLValues json opts) ''stale'' = Inr (Some [x]))"
proof (intro conjI impI)
  assume "ScanConsistency opts \<notin> {0, ViewScanConsistencyNotBounded,
      ViewScanConsistencyRequestPlus, ViewScanConsistencyUpdateAfter}"
  then show "toURLValues json opts = Inl (invalidArgumentsError ''unexpected stale option'')"
    by (rule toURLValues_stale_error)
next
  assume h: "\<not> isl (toURLValues json opts) \<and> Raw opts ''stale'' = None"
  then obtain vals where ok: "toURLValues json opts = Inr vals"
    by (cases "toURLValues json opts") simp_all
  from toURLValues_param(1) [OF ok] h
  have v: "vals ''stale'' = staleFor (ScanConsistency opts)"
    by (simp add: rawOr_def)
  {
    assume "ScanConsistency opts = ViewScanConsistencyRequestPlus"
    with v show "paramOf (toURLValues json opts) ''stale'' = Inr (Some [''false''])"
      by (simp add: ok paramOf_def staleFor_def)
  }
  {
    assume "ScanConsistency opts = ViewScanConsistencyNotBounded"
    with v show "paramOf (toURLValues json opts) ''stale'' = Inr (Some [''ok''])"
      by (simp add: ok paramOf_def staleFor_def ViewScanConsistencyNotBounded_def
            ViewScanConsistencyRequestPlus_def)
  }
  {
    assume "ScanConsistency opts = ViewScanConsistencyUpdateAfter"
    with v show "paramOf (toURLValues json opts) ''stale'' = Inr (Some [''update_after''])"
      by (simp add: ok paramOf_def staleFor_def ViewScanConsistencyNotBounded_def
            ViewScanConsistencyRequestPlus_def ViewScanConsistencyUpdateAfter_def)
  }
  {
    assume "ScanConsistency opts = 0"
    with v show "paramOf (toURLValues json opts) ''stale'' = Inr None"
      by (simp add: ok paramOf_def staleFor_def ViewScanConsistencyNotBounded_def
            ViewScanConsistencyRequestPlus_def ViewScanConsistencyUpdateAfter_def)
  }
next
  assume h: "\<not> isl (toURLValues json opts) \<and> Raw opts ''stale'' = Some x"
  then obtain vals where ok: "toURLValues json opts = Inr vals"
    by (cases "toURLValues json opts") simp_all
  from toURLValues_param(1) [OF ok] h
  show "paramOf (toURLValues json opts) ''stale'' = Inr (Some [x])"
    by (simp add: rawOr_def ok paramOf_def)
qed

theorem C5_stale_parameter_witness:
  "ScanConsistency badStaleOptions \<notin> {0, ViewScanConsistencyNotBounded,
       ViewScanConsistencyRequestPlus, ViewScanConsistencyUpdateAfter} \<and>
   toURLValues noEncoder badStaleOptions = Inl (invalidArgumentsError ''unexpected stale option'') \<and>
   \<not> isl (toURLValues noEncoder requestPlusOptions) \<and>
   Raw requestPlusOptions ''stale'' = None \<and>
   ScanConsistency requestPlusOptions = ViewScanConsistencyRequestPlus \<and>
   paramOf (toURLValues noEncoder requestPlusOptions) ''stale'' = Inr (Some [''false'']) \<and>
   \<not> isl (toURLValues noEncoder rawStaleRequestPlusOptions) \<and>
   Raw rawStaleRequestPlusOptions ''stale'' = Some ''ok'' \<and>
   paramOf (toURLValues noEncoder rawStaleRequestPlusOptions) ''stale'' = Inr (Some [''ok''])"
proof -
  have h1: "ScanConsistency badStaleOptions \<notin> {0, ViewScanConsistencyNotBounded,
       ViewScanConsistencyRequestPlus, ViewScanConsistencyUpdateAfter}"
    by (simp add: badStaleOptions_def toURLValues_eval)
  have h2: "\<not> isl (toURLValues noEncoder requestPlusOptions)"
    by (simp add: requestPlusOptions_def toURLValues_eval)
  have h3: "Raw requestPlusOptions ''stale'' = None"
    "ScanConsistency requestPlusOptions = ViewScanConsistencyRequestPlus"
    by (simp_all add: requestPlusOptions_def zeroViewOptions_def)
  have h4: "\<not> isl (toURLValues noEncoder rawStaleRequestPlusOptions)"
    by (simp add: rawStaleRequestPlusOptions_def toURLValues_eval)
  have h5: "Raw rawStaleRequestPlusOptions ''stale'' = Some ''ok''"
    by (simp add: rawStaleRequestPlusOptions_def zeroViewOptions_def)
  show ?thesis
    using h1 h2 h3 h4 h5
      C5_stale_parameter [of badStaleOptions noEncoder]
      C5_stale_parameter [of requestPlusOptions noEncoder]
      C5_stale_parameter [of rawStaleRequestPlusOptions noEncoder "''ok''"]
    by simp
qed

text \<open>
  As stated the claim fails. With \<open>ScanConsistency\<close> zero and \<open>stale\<close> given in \<open>Raw\<close>, the
  parameter is present; with \<open>ViewScanConsistencyRequestPlus\<close> and \<open>stale = ok\<close> in \<open>Raw\<close>,
  it is \<open>ok\<close>, not \<open>false\<close>; and with a valid scan consistency but an ordering that is
  refused, there is an error and no form at all.
\<close>

theorem C5_raw_overrides_stale_counterexample:
  "ScanConsistency rawStaleOptions = 0 \<and>
   paramOf (toURLValues noEncoder rawStaleOptions) ''stale'' = Inr (Some [''ok'']) \<and>
   ScanConsistency rawStaleRequestPlusOptions = ViewScanConsistencyRequestPlus \<and>
   paramOf (toURLValues noEncoder rawStaleRequestPlusOptions) ''stale'' = Inr (Some [''ok'']) \<and>
   ScanConsistency badOrderOptions = ViewScanConsistencyRequestPlus \<and>
   toURLValues noEncoder badOrderOptions = Inl (invalidArgumentsError ''unexpected order option'')"
  by (simp add: rawStaleOptions_def rawStaleRequestPlusOptions_def badOrderOptions_def
        toURLValues_eval)


text \<open>
  C6 (amended). Whenever \<open>toURLValues\<close> succeeds, then for each of the parameters
  \<open>reduce\<close>, \<open>group\<close> and \<open>group_level\<close> that \<open>Raw\<close> does not name: \<open>reduce\<close> is present
  and is \<open>true\<close> iff \<open>Reduce\<close> is set (otherwise \<open>false\<close>); \<open>group\<close> is present only when
  \<open>Reduce\<close> is set, and then is \<open>true\<close> iff \<open>Group\<close> is set; \<open>group_level\<close> is present iff
  \<open>Reduce\<close> is set and \<open>GroupLevel\<close> is non-zero, and then is \<open>GroupLevel\<close> in decimal. A
  parameter that \<open>Raw\<close> names has the value \<open>Raw\<close> gives it.
\<close>

theorem C6_reduce_group_parameters:
  "\<not> isl (toURLValues json opts) \<longrightarrow>
     (Raw opts ''reduce'' = None \<longrightarrow>
        paramOf (toURLValues json opts) ''reduce''
          = Inr (Some [if Reduce opts then ''true'' else ''false''])) \<and>
     (Raw opts ''group'' = None \<longrightarrow>
        paramOf (toURLValues json opts) ''group''
          = Inr (if Reduce opts then Some [if Group opts then ''true'' else ''false''] else None)) \<and>
     (Raw opts ''group_level'' = None \<longrightarrow>
        paramOf (toURLValues json opts) ''group_level''
          = Inr (if Reduce opts \<and> GroupLevel opts \<noteq> 0
                 then Some [FormatUint (GroupLevel opts)] else None)) \<and>
     (\<forall>k \<in> {''reduce'', ''group'', ''group_level''}. \<forall>x. Raw opts k = Some x \<longrightarrow>
        paramOf (toURLValues json opts) k = Inr (Some [x]))"
proof
  assume "\<not> isl (toURLValues json opts)"
  then obtain vals where ok: "toURLValues json opts = Inr vals"
    by (cases "toURLValues json opts") simp_all
  note p = toURLValues_param [OF ok]
  have a: "Raw opts ''reduce'' = None \<longrightarrow>
        paramOf (toURLValues json opts) ''reduce''
          = Inr (Some [if Reduce opts then ''true'' else ''false''])"
    using p(3) by (simp add: ok paramOf_def rawOr_def)
  have b: "Raw opts ''group'' = None \<longrightarrow>
        paramOf (toURLValues json opts) ''group''
          = Inr (if Reduce opts then Some [if Group opts then ''true'' else ''false''] else None)"
    using p(4) by (simp add: ok paramOf_def rawOr_def)
  have c: "Raw opts ''group_level'' = None \<longrightarrow>
        paramOf (toURLValues json opts) ''group_level''
          = Inr (if Reduce opts \<and> GroupLevel opts \<noteq> 0
                 then Some [FormatUint (GroupLevel opts)] else None)"
    using p(5) by (simp add: ok paramOf_def rawOr_def)
  have d: "\<forall>k \<in> {''reduce'', ''group'', ''group_level''}. \<forall>x. Raw opts k = Some x \<longrightarrow>
        paramOf (toURLValues json opts) k = Inr (Some [x])"
    using p(3) p(4) p(5) by (simp add: ok paramOf_def rawOr_def)
  from a b c d show "(Raw opts ''reduce'' = None \<longrightarrow>
        paramOf (toURLValues json opts) ''reduce''
          = Inr (Some [if Reduce opts then ''true'' else ''false''])) \<and>
     (Raw opts ''group'' = None \<longrightarrow>
        paramOf (toURLValues json opts) ''group''
          = Inr (if Reduce opts then Some [if Group opts then ''true'' else ''false''] else None)) \<and>
     (Raw opts ''group_level'' = None \<longrightarrow>
        paramOf (toURLValues json opts) ''group_level''
          = Inr (if Reduce opts \<and> GroupLevel opts \<noteq> 0
                 then Some [FormatUint (GroupLevel opts)] else None)) \<and>
     (\<forall>k \<in> {''reduce'', ''group'', ''group_level''}. \<forall>x. Raw opts k = Some x \<longrightarrow>
        paramOf (toURLValues json opts) k = Inr (Some [x]))"
    by (intro conjI)
qed

theorem C6_reduce_group_parameters_witness:
  "\<not> isl (toURLValues noEncoder groupedOptions) \<and>
   Raw groupedOptions ''reduce'' = None \<and> Raw groupedOptions ''group'' = None \<and>
   Raw groupedOptions ''group_level'' = None \<and>
   paramOf (toURLValues noEncoder groupedOptions) ''reduce'' = Inr (Some [''true'']) \<and>
   paramOf (toURLValues noEncoder groupedOptions) ''group'' = Inr (Some [''true'']) \<and>
   paramOf (toURLValues noEncoder groupedOptions) ''group_level'' = Inr (Some [''2'']) \<and>
   \<not> isl (toURLValues noEncoder rawReduceOptions) \<and>
   ''group'' \<in> {''reduce'', ''group'', ''group_level''} \<and>
   Raw rawReduceOptions ''group'' = Some ''true'' \<and>
   paramOf (toURLValues noEncoder rawReduceOptions) ''group'' = Inr (Some [''true''])"
proof -
  have h1: "\<not> isl (toURLValues noEncoder groupedOptions)"
    by (simp add: groupedOptions_def toURLValues_eval)
  have h2: "Raw groupedOptions ''reduce'' = None" "Raw groupedOptions ''group'' = None"
    "Raw groupedOptions ''group_level'' = None" "Reduce groupedOptions" "Group groupedOptions"
    "GroupLevel groupedOptions = 2"
    by (simp_all add: groupedOptions_def zeroViewOptions_def)
  have h3: "\<not> isl (toURLValues noEncoder rawReduceOptions)"
    by (simp add: rawReduceOptions_def toURLValues_eval)
  have h4: "Raw rawReduceOptions ''group'' = Some ''true''"
    by (simp add: rawReduceOptions_def zeroViewOptions_def)
  have fmt: "FormatUint 2 = ''2''"
    by (simp add: FormatUint.simps digitChar_def)
  show ?thesis
    using h1 h2 h3 h4 fmt
      C6_reduce_group_parameters [of noEncoder groupedOptions]
      C6_reduce_group_parameters [of noEncoder rawReduceOptions]
    by simp
qed

text \<open>
  As stated the claim fails: with \<open>Reduce\<close> unset and \<open>reduce\<close> and \<open>group\<close> given in
  \<open>Raw\<close>, the form has \<open>reduce = true\<close> and a \<open>group\<close> parameter.
\<close>

theorem C6_raw_overrides_reduce_counterexample:
  "\<not> Reduce rawReduceOptions \<and>
   paramOf (toURLValues noEncoder rawReduceOptions) ''reduce'' = Inr (Some [''true'']) \<and>
   paramOf (toURLValues noEncoder rawReduceOptions) ''group'' = Inr (Some [''true''])"
  by (simp add: rawReduceOptions_def toURLValues_eval)

subsection \<open>Sub-document lookups\<close>

text \<open>
  C9. With more than 16 operations \<open>LookupIn\<close> returns an error and hands nothing to the
  key-value provider. With at most 16 operations (and a provider at hand) it hands over
  exactly one request, whose operations are the given ones in order, preceded by the one
  xattr expiry-get operation iff \<open>WithExpiry\<close> is set; so 17 operations go out for 16 given
  ones with \<open>WithExpiry\<close>.
\<close>

theorem C9_lookupIn_dispatch:
  "(length ops > 16 \<longrightarrow>
      fst (LookupIn K H c key ops opts) = [] \<and> isl (snd (LookupIn K H c key ops opts))) \<and>
   (length ops \<le> 16 \<and> \<not> isl (getKvProvider c) \<longrightarrow>
      map Ops (fst (LookupIn K H c key ops opts))
        = [(if WithExpiry (lookupOptsOrZero opts) then [expiryOp K] else []) @ map lookupOp ops])"
proof (intro conjI impI)
  assume big: "length ops > 16"
  then show "fst (LookupIn K H c key ops opts) = []"
    by (cases "getKvProvider c") (simp_all add: LookupIn_def lookupIn_def Let_def)
next
  assume big: "length ops > 16"
  then show "isl (snd (LookupIn K H c key ops opts))"
    by (cases "getKvProvider c") (simp_all add: LookupIn_def lookupIn_def Let_def)
next
  assume h: "length ops \<le> 16 \<and> \<not> isl (getKvProvider c)"
  then obtain agent where ag: "getKvProvider c = Inr agent"
    by (cases "getKvProvider c") simp_all
  define opts1 where "opts1 = lookupOptsOrZero opts"
  define subdocs where "subdocs = (if WithExpiry opts1 then [expiryOp K] else []) @ map lookupOp ops"
  define req where "req = \<lparr>Key_req = key, Ops = subdocs, CollectionName = collectionName c,
                           ScopeName = scopeName c\<rparr>"
  have l: "fst (lookupIn K H c key ops opts1) = [req]"
    using h by (simp add: lookupIn_def ag Let_def req_def subdocs_def expiryOp_def
        split: kvOutcome.splits)
  have "fst (LookupIn K H c key ops opts) = fst (lookupIn K H c key ops opts1)"
    unfolding LookupIn_def Let_def opts1_def lookupOptsOrZero_def
    by (simp split: prod.splits option.splits)
  with l show "map Ops (fst (LookupIn K H c key ops opts))
        = [(if WithExpiry (lookupOptsOrZero opts) then [expiryOp K] else []) @ map lookupOp ops]"
    by (simp add: req_def subdocs_def opts1_def)
qed

theorem C9_lookupIn_dispatch_witness:
  "length seventeenOps > 16 \<and>
   fst (LookupIn engineFlags plainHelpers sampleCollection ''k'' seventeenOps (Some expiryOptions)) = [] \<and>
   snd (LookupIn engineFlags plainHelpers sampleCollection ''k'' seventeenOps (Some expiryOptions))
     = Inl (errorsNew ''too many lookupIn ops specified, maximum 16'') \<and>
   length sixteenOps \<le> 16 \<and> \<not> isl (getKvProvider sampleCollection) \<and>
   map Ops (fst (LookupIn engineFlags plainHelpers sampleCollection ''k'' sixteenOps (Some expiryOptions)))
     = [expiryOp engineFlags # map lookupOp sixteenOps] \<and>
   map length (map Ops
     (fst (LookupIn engineFlags plainHelpers sampleCollection ''k'' sixteenOps (Some expiryOptions))))
     = [17]"
proof -
  have h1: "length seventeenOps > 16"
    by (simp add: seventeenOps_def)
  have h2: "length sixteenOps \<le> 16 \<and> \<not> isl (getKvProvider sampleCollection)"
    by (simp add: sixteenOps_def sampleCollection_def)
  have e: "snd (LookupIn engineFlags plainHelpers sampleCollection ''k'' seventeenOps (Some expiryOptions))
     = Inl (errorsNew ''too many lookupIn ops specified, maximum 16'')"
    using h1 by (simp add: LookupIn_def lookupIn_def sampleCollection_def Let_def)
  have w: "WithExpiry (lookupOptsOrZero (Some expiryOptions))"
    by (simp add: lookupOptsOrZero_def expiryOptions_def)
  have len: "length (map lookupOp sixteenOps) = 16"
    by (simp add: sixteenOps_def)
  from C9_lookupIn_dispatch [of seventeenOps engineFlags plainHelpers sampleCollection "''k''"
      "Some expiryOptions"]
    C9_lookupIn_dispatch [of sixteenOps engineFlags plainHelpers sampleCollection "''k''"
      "Some expiryOptions"]
  show ?thesis
    using h1 h2 e w len by simp
qed

subsection \<open>Waiting for indexes\<close>

lemma over_cap:
  "cur \<in> {50 * Millisecond, 1000} \<Longrightarrow> (1000 :: Duration) <s cur + 500 * Millisecond"
  by (auto simp add: Millisecond_def word_sless_alt)

lemma watchLoop_slept:
  "cur \<in> {50 * Millisecond, 1000} \<Longrightarrow> set (slept (watchLoop ctx wl cur script)) \<subseteq> {1000}"
proof (induction script arbitrary: cur)
  case Nil
  show ?case by simp
next
  case (Cons p rest)
  have c: "1000 <s cur + 500 * Millisecond"
    using Cons.prems by (rule over_cap)
  have ih: "set (slept (watchLoop ctx wl 1000 rest)) \<subseteq> {1000}"
    by (rule Cons.IH) simp
  show ?case
    using ih
    by (simp add: c Let_def split: sum.splits prod.splits option.splits)
qed

lemma WatchIndexes_slept:
  "set (slept (WatchIndexes w g b wl timeout opts script)) \<subseteq> {1000}"
  by (simp add: WatchIndexes_def Let_def watchLoop_slept)


lemmas watch_eval =
  WatchIndexes_def sampleWorld_def tenSeconds_def buildingPoll_def onlinePoll_def emptyPoll_def
  twiceNamedPoll_def twiceNamedLatePoll_def twiceNamed_def
  indexNamed_def contextFromMaybeTimeout_def WithTimeout_def Millisecond_def
  getAllIndexes_def checkIndexesActive_def Let_def word_sless_alt zeroTimeoutError_def

text \<open>
  C1. The intervals slept between polls should back off from 50 milliseconds up to a cap
  of one second. The code compares and caps with the bare number 1000, which for a
  duration is 1000 nanoseconds: after the first poll the interval drops from 50
  milliseconds to one microsecond and stays there (lemma \<open>WatchIndexes_slept\<close>), so the
  loop polls without pause.
\<close>

theorem C1_watch_interval_capped_at_1000ns:
  "slept (WatchIndexes sampleWorld 0 ''b'' [''idx''] tenSeconds None
            [buildingPoll, buildingPoll, buildingPoll, onlinePoll]) = [1000, 1000, 1000] \<and>
   sint (1000 :: Duration) = 1000 \<and>
   sint (50 * Millisecond) = 50000000 \<and>
   (1000 :: Duration) <s 50 * Millisecond"
  by (simp add: watch_eval)


lemma collected_length_le:
  "length (concat (map (\<lambda>n. case find (\<lambda>ix. ixName ix = n) indexes of
                                    None \<Rightarrow> [] | Some ix \<Rightarrow> [ix]) wl)) \<le> length wl"
  by (induction wl) (auto split: option.splits)

lemma collected_length_eq:
  "length (concat (map (\<lambda>n. case find (\<lambda>ix. ixName ix = n) indexes of
                                    None \<Rightarrow> [] | Some ix \<Rightarrow> [ix]) wl)) = length wl
     \<longleftrightarrow> (\<forall>n \<in> set wl. find (\<lambda>ix. ixName ix = n) indexes \<noteq> None)"
proof (induction wl)
  case Nil
  show ?case by simp
next
  case (Cons n wl)
  show ?case
  proof (cases "find (\<lambda>ix. ixName ix = n) indexes")
    case None
    with collected_length_le [of indexes wl] show ?thesis
      by auto
  next
    case (Some ix)
    with Cons.IH show ?thesis
      by simp
  qed
qed

lemma collected_set:
  "set (concat (map (\<lambda>n. case find (\<lambda>ix. ixName ix = n) indexes of
                                 None \<Rightarrow> [] | Some ix \<Rightarrow> [ix]) wl))
     = {ix. \<exists>n \<in> set wl. find (\<lambda>ix. ixName ix = n) indexes = Some ix}"
  by (induction wl) (auto split: option.splits)

lemma absent_iff: "absent indexes n \<longleftrightarrow> find (\<lambda>ix. ixName ix = n) indexes = None"
  by (auto simp add: absent_def list_ex_iff find_None_iff)

lemma check_all_online:
  "checkIndexesActive indexes wl = (True, None) \<longleftrightarrow> (\<forall>n \<in> set wl. firstOnline indexes n)"
proof -
  let ?c = "concat (map (\<lambda>n. case find (\<lambda>ix. ixName ix = n) indexes of
                                 None \<Rightarrow> [] | Some ix \<Rightarrow> [ix]) wl)"
  have "checkIndexesActive indexes wl = (True, None)
          \<longleftrightarrow> length ?c = length wl \<and> \<not> list_ex (\<lambda>ix. ixState ix \<noteq> ''online'') ?c"
    by (simp add: checkIndexesActive_def Let_def)
  also have "\<dots> \<longleftrightarrow> (\<forall>n \<in> set wl. find (\<lambda>ix. ixName ix = n) indexes \<noteq> None) \<and>
       (\<forall>ix \<in> set ?c. ixState ix = ''online'')"
    by (simp only: collected_length_eq list_ex_iff) blast
  also have "\<dots> \<longleftrightarrow> (\<forall>n \<in> set wl. firstOnline indexes n)"
    unfolding collected_set firstOnline_def
    by (auto split: option.splits) 
  finally show ?thesis .
qed

lemma check_missing:
  "snd (checkIndexesActive indexes wl) = Some e
     \<longleftrightarrow> e = indexMissingError \<and> (\<exists>n \<in> set wl. absent indexes n)"
proof -
  let ?c = "concat (map (\<lambda>n. case find (\<lambda>ix. ixName ix = n) indexes of
                                 None \<Rightarrow> [] | Some ix \<Rightarrow> [ix]) wl)"
  have "snd (checkIndexesActive indexes wl) = Some e
          \<longleftrightarrow> e = indexMissingError \<and> length ?c \<noteq> length wl"
    by (auto simp add: checkIndexesActive_def Let_def indexMissingError_def)
  also have "\<dots> \<longleftrightarrow> e = indexMissingError \<and> (\<exists>n \<in> set wl. absent indexes n)"
    by (simp only: collected_length_eq absent_iff) auto
  finally show ?thesis .
qed

lemma firstOnline_distinct:
  "distinct (map ixName indexes) \<Longrightarrow> firstOnline indexes n = presentOnline indexes n"
proof (induction indexes)
  case Nil
  show ?case by (simp add: firstOnline_def presentOnline_def)
next
  case (Cons ix indexes)
  then have ih: "firstOnline indexes n = presentOnline indexes n"
    by simp
  show ?case
  proof (cases "ixName ix = n")
    case True
    with Cons.prems have "n \<notin> ixName ` set indexes"
      by simp
    then have "\<not> list_ex (\<lambda>ix. ixName ix = n) indexes"
      unfolding list_ex_iff by blast
    then have "\<not> presentOnline indexes n"
      by (auto simp add: presentOnline_def list_ex_iff)
    with True show ?thesis
      by (simp add: firstOnline_def presentOnline_def)
  next
    case False
    with ih show ?thesis
      by (simp add: firstOnline_def presentOnline_def)
  qed
qed


lemma watchLoop_nil_iff:
  "outcome (watchLoop ctx wl cur script) = Some None \<longleftrightarrow>
     (\<exists>indexes. Inr indexes \<in> set (polled (watchLoop ctx wl cur script)) \<and>
                checkIndexesActive indexes wl = (True, None))"
proof (induction script arbitrary: cur)
  case Nil
  show ?case by simp
next
  case (Cons p rest)
  show ?case
  proof (cases "getAllIndexes (pollQuery p)")
    case (Inl err)
    then show ?thesis by simp
  next
    case (Inr indexes)
    obtain allOnline e where chk: "checkIndexesActive indexes wl = (allOnline, e)"
      by (cases "checkIndexesActive indexes wl")
    show ?thesis
    proof (cases e)
      case (Some err)
      with Inr chk show ?thesis by simp
    next
      case None
      show ?thesis
      proof (cases allOnline)
        case True
        with Inr chk None show ?thesis by simp
      next
        case False
        with Inr chk None Cons.IH show ?thesis
          by (auto simp add: Let_def split: option.splits)
      qed
    qed
  qed
qed

lemma watchLoop_error:
  "Inr indexes \<in> set (polled (watchLoop ctx wl cur script)) \<Longrightarrow>
   snd (checkIndexesActive indexes wl) = Some e \<Longrightarrow>
   outcome (watchLoop ctx wl cur script) = Some (Some e)"
proof (induction script arbitrary: cur)
  case Nil
  then show ?case by simp
next
  case (Cons p rest)
  show ?case
  proof (cases "getAllIndexes (pollQuery p)")
    case (Inl err)
    with Cons.prems show ?thesis by simp
  next
    case (Inr ixs)
    obtain allOnline e' where chk: "checkIndexesActive ixs wl = (allOnline, e')"
      by (cases "checkIndexesActive ixs wl")
    show ?thesis
    proof (cases e')
      case (Some err)
      with Inr chk Cons.prems show ?thesis by auto
    next
      case None
      show ?thesis
      proof (cases allOnline)
        case True
        with Inr chk None Cons.prems show ?thesis by auto
      next
        case False
        with Inr chk None Cons.prems Cons.IH show ?thesis
          by (auto simp add: Let_def split: option.splits if_splits)
      qed
    qed
  qed
qed

lemma WatchIndexes_loop:
  "\<not> (watchContext timeout = None \<and> watchTimeout timeout = 0) \<Longrightarrow>
     WatchIndexes w g b wl timeout opts script
       = watchLoop (contextFromMaybeTimeout (timeNow w) (watchContext timeout)
                      (watchTimeout timeout) g)
           (watched wl opts) (50 * Millisecond) script"
  by (auto simp add: WatchIndexes_def watched_def Let_def)

text \<open>
  C4 (amended). \<open>WatchIndexes\<close> returns nil exactly when some poll finds, for every
  watched name (and \<open>#primary\<close> when \<open>WatchPrimary\<close> is set), that the first index of that
  name in the bucket's index list has the state \<open>online\<close>. A poll in which some watched name
  is absent from the index list makes it return the query-index error with \<open>indexMissing\<close>
  set. Where the names of the index list are distinct, the first index of a name being
  online is the same as the name being present with state \<open>online\<close>.
\<close>

theorem C4_watch_returns_nil_when_first_entries_online:
  "(outcome (WatchIndexes w g b wl timeout opts script) = Some None \<longleftrightarrow>
      (\<exists>indexes. Inr indexes \<in> set (polled (WatchIndexes w g b wl timeout opts script)) \<and>
                 (\<forall>n \<in> set (watched wl opts). firstOnline indexes n))) \<and>
   (\<forall>indexes n. Inr indexes \<in> set (polled (WatchIndexes w g b wl timeout opts script)) \<and>
        n \<in> set (watched wl opts) \<and> absent indexes n
        \<longrightarrow> outcome (WatchIndexes w g b wl timeout opts script) = Some (Some indexMissingError)) \<and>
   (\<forall>indexes n. distinct (map ixName indexes)
        \<longrightarrow> firstOnline indexes n = presentOnline indexes n)"
proof (intro conjI allI impI)
  show "outcome (WatchIndexes w g b wl timeout opts script) = Some None \<longleftrightarrow>
      (\<exists>indexes. Inr indexes \<in> set (polled (WatchIndexes w g b wl timeout opts script)) \<and>
                 (\<forall>n \<in> set (watched wl opts). firstOnline indexes n))"
  proof (cases "watchContext timeout = None \<and> watchTimeout timeout = 0")
    case True
    then show ?thesis by (simp add: WatchIndexes_def)
  next
    case False
    show ?thesis
      unfolding WatchIndexes_loop [OF False] watchLoop_nil_iff check_all_online by (rule refl)
  qed
next
  fix indexes n
  assume h: "Inr indexes \<in> set (polled (WatchIndexes w g b wl timeout opts script)) \<and>
        n \<in> set (watched wl opts) \<and> absent indexes n"
  then have miss: "snd (checkIndexesActive indexes (watched wl opts)) = Some indexMissingError"
    unfolding check_missing by blast
  show "outcome (WatchIndexes w g b wl timeout opts script) = Some (Some indexMissingError)"
  proof (cases "watchContext timeout = None \<and> watchTimeout timeout = 0")
    case True
    with h show ?thesis by (simp add: WatchIndexes_def)
  next
    case False
    from h have "Inr indexes \<in> set (polled (watchLoop
        (contextFromMaybeTimeout (timeNow w) (watchContext timeout) (watchTimeout timeout) g)
        (watched wl opts) (50 * Millisecond) script))"
      unfolding WatchIndexes_loop [OF False] by simp
    from watchLoop_error [OF this miss] show ?thesis
      unfolding WatchIndexes_loop [OF False] .
  qed
next
  fix indexes :: "QueryIndex list" and n
  assume "distinct (map ixName indexes)"
  then show "firstOnline indexes n = presentOnline indexes n"
    by (rule firstOnline_distinct)
qed

theorem C4_watch_returns_nil_when_first_entries_online_witness:
  "Inr [indexNamed ''idx'' ''gsi'' ''online'']
     \<in> set (polled (WatchIndexes sampleWorld 0 ''b'' [''idx''] tenSeconds None
                      [buildingPoll, onlinePoll])) \<and>
   watched [''idx''] None = [''idx''] \<and>
   firstOnline [indexNamed ''idx'' ''gsi'' ''online''] ''idx'' \<and>
   outcome (WatchIndexes sampleWorld 0 ''b'' [''idx''] tenSeconds None
              [buildingPoll, onlinePoll]) = Some None \<and>
   Inr [] \<in> set (polled (WatchIndexes sampleWorld 0 ''b'' [''idx''] tenSeconds None
                           [emptyPoll])) \<and>
   ''idx'' \<in> set (watched [''idx''] None) \<and> absent [] ''idx'' \<and>
   outcome (WatchIndexes sampleWorld 0 ''b'' [''idx''] tenSeconds None [emptyPoll])
     = Some (Some indexMissingError) \<and>
   distinct (map ixName [indexNamed ''idx'' ''gsi'' ''online'']) \<and>
   firstOnline [indexNamed ''idx'' ''gsi'' ''online''] ''idx''
     = presentOnline [indexNamed ''idx'' ''gsi'' ''online''] ''idx''"
proof -
  have h1: "Inr [indexNamed ''idx'' ''gsi'' ''online'']
     \<in> set (polled (WatchIndexes sampleWorld 0 ''b'' [''idx''] tenSeconds None
                      [buildingPoll, onlinePoll]))"
    by (simp add: watch_eval)
  have h2: "watched [''idx''] None = [''idx'']"
    "firstOnline [indexNamed ''idx'' ''gsi'' ''online''] ''idx''"
    by (simp_all add: watched_def firstOnline_def indexNamed_def)
  then have h2': "\<forall>n \<in> set (watched [''idx''] None).
      firstOnline [indexNamed ''idx'' ''gsi'' ''online''] n"
    by simp
  have h3: "Inr [] \<in> set (polled (WatchIndexes sampleWorld 0 ''b'' [''idx''] tenSeconds None
                           [emptyPoll]))"
    by (simp add: watch_eval)
  have h4: "''idx'' \<in> set (watched [''idx''] None)" "absent [] ''idx''"
    by (simp_all add: watched_def absent_def)
  have h5: "distinct (map ixName [indexNamed ''idx'' ''gsi'' ''online''])"
    by simp
  from C4_watch_returns_nil_when_first_entries_online
         [of sampleWorld 0 "''b''" "[''idx'']" tenSeconds None "[buildingPoll, onlinePoll]"]
       C4_watch_returns_nil_when_first_entries_online
         [of sampleWorld 0 "''b''" "[''idx'']" tenSeconds None "[emptyPoll]"]
  show ?thesis
    using h1 h2 h2' h3 h4 h5 by blast
qed

text \<open>
  As stated the claim fails for an index list that has a name twice: the watched name is
  present with state \<open>online\<close> (its second entry), but the first entry of that name is
  still building, so the poll does not end the wait: the run times out, or polls again.
\<close>

theorem C4_second_entry_online_counterexample:
  "presentOnline twiceNamed ''idx'' \<and>
   polled (WatchIndexes sampleWorld 0 ''b'' [''idx''] tenSeconds None [twiceNamedLatePoll])
     = [Inr twiceNamed] \<and>
   outcome (WatchIndexes sampleWorld 0 ''b'' [''idx''] tenSeconds None [twiceNamedLatePoll])
     = Some (Some zeroTimeoutError) \<and>
   polled (WatchIndexes sampleWorld 0 ''b'' [''idx''] tenSeconds None [twiceNamedPoll, onlinePoll])
     = [Inr twiceNamed, Inr [indexNamed ''idx'' ''gsi'' ''online'']]"
  by (simp add: watch_eval presentOnline_def)

end
